theory Spec2Isabelle
  imports Main "HOL-Library.Monad_Syntax" "HOL-Library.Sublist"
begin

section \<open>Python values and the string operations the program uses\<close>

text \<open>
  The program is dynamically typed: a field of a JSON body goes into a record as it
  comes, whatever its type. Values are therefore modelled by one datatype. JSON numbers
  are integers here (floating point is outside the model). A \<open>char\<close> stands for one
  code point of a Python \<open>str\<close>, so the model covers text in U+0000..U+00FF.

  An operation that raises in Python returns \<open>None\<close>. Every handler of the adapters is
  \<open>except Exception\<close> and uses the exception only to print it, so the class of the
  exception is not kept there. Printing is not modelled.
\<close>

datatype pyval =
    PNone
  | PBool bool
  | PInt int
  | PStr string
  | PList "pyval list"
  | PDict "(string \<times> pyval) list"

text \<open>Truth value of an object: \<open>if x\<close>, \<open>not x\<close>.\<close>

fun truthy :: "pyval \<Rightarrow> bool" where
  "truthy PNone = False"
| "truthy (PBool b) = b"
| "truthy (PInt i) = (i \<noteq> 0)"
| "truthy (PStr s) = (s \<noteq> [])"
| "truthy (PList xs) = (xs \<noteq> [])"
| "truthy (PDict kvs) = (kvs \<noteq> [])"

text \<open>\<open>d.get(k, default)\<close>: only a dict has \<open>get\<close> (AttributeError otherwise).\<close>

fun py_get :: "pyval \<Rightarrow> string \<Rightarrow> pyval \<Rightarrow> pyval option" where
  "py_get (PDict kvs) k d = Some (case map_of kvs k of None \<Rightarrow> d | Some v \<Rightarrow> v)"
| "py_get _ k d = None"

text \<open>\<open>d[k]\<close> with a string key: KeyError on a dict without the key, TypeError on
  anything that is not a dict.\<close>

fun py_getitem :: "pyval \<Rightarrow> string \<Rightarrow> pyval option" where
  "py_getitem (PDict kvs) k = map_of kvs k"
| "py_getitem _ k = None"

text \<open>\<open>for x in v\<close>: a list gives its elements, a dict its keys, a string its
  characters; nothing else is iterable (TypeError).\<close>

fun py_iter :: "pyval \<Rightarrow> pyval list option" where
  "py_iter (PList xs) = Some xs"
| "py_iter (PDict kvs) = Some (map (\<lambda>kv. PStr (fst kv)) kvs)"
| "py_iter (PStr s) = Some (map (\<lambda>c. PStr [c]) s)"
| "py_iter _ = None"

fun py_len :: "pyval \<Rightarrow> nat option" where
  "py_len (PStr s) = Some (length s)"
| "py_len (PList xs) = Some (length xs)"
| "py_len (PDict kvs) = Some (length kvs)"
| "py_len _ = None"

text \<open>\<open>xs[:n]\<close> on a sequence: a negative bound counts from the end.\<close>

definition py_take :: "int \<Rightarrow> 'a list \<Rightarrow> 'a list" where
  "py_take n xs = (if 0 \<le> n then take (nat n) xs else take (nat (int (length xs) + n)) xs)"

fun py_slice_to :: "pyval \<Rightarrow> int \<Rightarrow> pyval option" where
  "py_slice_to (PStr s) n = Some (PStr (py_take n s))"
| "py_slice_to (PList xs) n = Some (PList (py_take n xs))"
| "py_slice_to _ n = None"

text \<open>\<open>v + "..."\<close>: only a string can be added to a string.\<close>

fun py_add_str :: "pyval \<Rightarrow> string \<Rightarrow> pyval option" where
  "py_add_str (PStr s) t = Some (PStr (s @ t))"
| "py_add_str _ t = None"

fun join :: "string \<Rightarrow> string list \<Rightarrow> string" where
  "join sep [] = []"
| "join sep [x] = x"
| "join sep (x # y # ys) = x @ sep @ join sep (y # ys)"

fun the_strs :: "pyval list \<Rightarrow> string list option" where
  "the_strs [] = Some []"
| "the_strs (PStr s # vs) = (case the_strs vs of None \<Rightarrow> None | Some ss \<Rightarrow> Some (s # ss))"
| "the_strs (_ # vs) = None"

text \<open>\<open>sep.join(v)\<close>: \<open>v\<close> must be iterable and all its items strings.\<close>

definition py_join :: "string \<Rightarrow> pyval \<Rightarrow> string option" where
  "py_join sep v = do { xs \<leftarrow> py_iter v; ss \<leftarrow> the_strs xs; Some (join sep ss) }"

text \<open>\<open>sub in s\<close> on strings.\<close>

fun py_in :: "string \<Rightarrow> string \<Rightarrow> bool" where
  "py_in sub [] = (sub = [])"
| "py_in sub (c # cs) = (prefix sub (c # cs) \<or> py_in sub cs)"

text \<open>\<open>s.split(sep)\<close> for a non-empty separator (every separator of the program is a
  non-empty literal; Python raises ValueError on an empty one, the model returns the
  string whole).\<close>

fun split_from :: "string \<Rightarrow> string \<Rightarrow> string \<Rightarrow> string list" where
  "split_from sep cur [] = [cur]"
| "split_from sep cur (c # cs) =
     (if sep \<noteq> [] \<and> prefix sep (c # cs)
      then cur # split_from sep [] (drop (length sep - 1) cs)
      else split_from sep (cur @ [c]) cs)"

definition py_split :: "string \<Rightarrow> string \<Rightarrow> string list" where
  "py_split sep s = split_from sep [] s"

text \<open>\<open>s.split(sep, 1)\<close>: at most one split, at the first occurrence.\<close>

fun split1_from :: "string \<Rightarrow> string \<Rightarrow> string \<Rightarrow> string list" where
  "split1_from sep cur [] = [cur]"
| "split1_from sep cur (c # cs) =
     (if sep \<noteq> [] \<and> prefix sep (c # cs)
      then [cur, drop (length sep - 1) cs]
      else split1_from sep (cur @ [c]) cs)"

definition py_split1 :: "string \<Rightarrow> string \<Rightarrow> string list" where
  "py_split1 sep s = split1_from sep [] s"

text \<open>\<open>s.strip()\<close> removes leading and trailing whitespace, \<open>s.strip(chars)\<close> leading
  and trailing characters of \<open>chars\<close>.\<close>

definition is_space :: "char \<Rightarrow> bool" where
  "is_space c = ((of_char c :: nat) \<in> {9, 10, 11, 12, 13, 28, 29, 30, 31, 32, 133, 160})"

definition strip_with :: "(char \<Rightarrow> bool) \<Rightarrow> string \<Rightarrow> string" where
  "strip_with p s = rev (dropWhile p (rev (dropWhile p s)))"

definition py_strip :: "string \<Rightarrow> string" where
  "py_strip s = strip_with is_space s"

definition py_strip_chars :: "string \<Rightarrow> string \<Rightarrow> string" where
  "py_strip_chars chars s = strip_with (\<lambda>c. c \<in> set chars) s"

text \<open>\<open>re.search(r'(NCT\d{8})', s)\<close>: the leftmost occurrence of \<open>NCT\<close> followed by
  eight digits, as \<open>group(1)\<close>.\<close>

definition is_digit :: "char \<Rightarrow> bool" where
  "is_digit c = (48 \<le> (of_char c :: nat) \<and> (of_char c :: nat) \<le> 57)"

fun nct_search :: "string \<Rightarrow> string option" where
  "nct_search [] = None"
| "nct_search (c # cs) =
     (if prefix ''NCT'' (c # cs) \<and> 11 \<le> length (c # cs) \<and> list_all is_digit (take 8 (drop 3 (c # cs)))
      then Some (take 11 (c # cs))
      else nct_search cs)"

text \<open>\<open>xs[-1]\<close> of the list a \<open>split\<close> returns (never empty).\<close>

definition last_segment :: "string \<Rightarrow> string" where
  "last_segment s = last (py_split ''/'' s)"

text \<open>\<open>str(v)\<close>, as an f-string formats a value: a string as it is, anything else by
  its \<open>repr\<close>.\<close>

definition digit_char :: "nat \<Rightarrow> char" where
  "digit_char d = char_of (d + 48)"

function decimal :: "nat \<Rightarrow> string" where
  "decimal n = (if 10 \<le> n then decimal (n div 10) @ [digit_char (n mod 10)] else [digit_char n])"
  by pat_completeness auto
termination
  by (relation "measure id") auto

declare decimal.simps [simp del]

definition repr_int :: "int \<Rightarrow> string" where
  "repr_int i = (if 0 \<le> i then decimal (nat i) else CHR ''-'' # decimal (nat (- i)))"

definition hex_digit :: "nat \<Rightarrow> char" where
  "hex_digit d = (if d < 10 then digit_char d else char_of (d + 87))"

definition escape_char :: "char \<Rightarrow> char \<Rightarrow> string" where
  "escape_char q c =
     (let n = (of_char c :: nat) in
      if c = q \<or> c = CHR 0x5C then [CHR 0x5C, c]
      else if n = 9 then [CHR 0x5C, CHR ''t'']
      else if n = 10 then [CHR 0x5C, CHR ''n'']
      else if n = 13 then [CHR 0x5C, CHR ''r'']
      else if n < 32 \<or> n = 127 \<or> (128 \<le> n \<and> n \<le> 160) \<or> n = 173
        then [CHR 0x5C, CHR ''x'', hex_digit (n div 16), hex_digit (n mod 16)]
      else [c])"

definition repr_str :: "string \<Rightarrow> string" where
  "repr_str s =
     (let q = (if CHR 0x27 \<in> set s \<and> CHR 0x22 \<notin> set s then CHR 0x22 else CHR 0x27)
      in [q] @ concat (map (escape_char q) s) @ [q])"

fun py_repr :: "pyval \<Rightarrow> string" where
  "py_repr PNone = ''None''"
| "py_repr (PBool b) = (if b then ''True'' else ''False'')"
| "py_repr (PInt i) = repr_int i"
| "py_repr (PStr s) = repr_str s"
| "py_repr (PList xs) = ''['' @ join '', '' (map py_repr xs) @ '']''"
| "py_repr (PDict kvs) =
     ''{'' @ join '', '' (map (\<lambda>kv. repr_str (fst kv) @ '': '' @ py_repr (snd kv)) kvs) @ ''}''"

fun py_str :: "pyval \<Rightarrow> string" where
  "py_str (PStr s) = s"
| "py_str v = py_repr v"

section \<open>The data model\<close>

text \<open>
  The dataclass \<open>SearchResult\<close>. Only \<open>title\<close> is required; \<open>SearchResult_new\<close> gives
  every other field the default of the class: the empty string, \<open>0\<close> for
  \<open>enrollment\<close>, and \<open>None\<close> (not the empty list) for the four list fields.
\<close>

record SearchResult =
  title :: pyval
  link :: pyval
  snippet :: pyval
  body :: pyval
  authors :: pyval
  published :: pyval
  abstract :: pyval
  pdf_url :: pyval
  arxiv_url :: pyval
  nct_id :: pyval
  status :: pyval
  study_type :: pyval
  conditions :: pyval
  interventions :: pyval
  phase :: pyval
  enrollment :: pyval
  locations :: pyval

definition SearchResult_new :: "pyval \<Rightarrow> SearchResult" where
  "SearchResult_new t =
     \<lparr>title = t, link = PStr [], snippet = PStr [], body = PStr [], authors = PNone,
      published = PStr [], abstract = PStr [], pdf_url = PStr [], arxiv_url = PStr [],
      nct_id = PStr [], status = PStr [], study_type = PStr [], conditions = PNone,
      interventions = PNone, phase = PStr [], enrollment = PInt 0, locations = PNone\<rparr>"

section \<open>The outside world\<close>

text \<open>
  A parsed HTML page, as far as the program looks at it through BeautifulSoup: the
  answers to the queries it makes. A \<open>tag\<close> is an element with its name, its
  \<open>get_text()\<close>, its attributes and the texts of the \<open>li\<close> elements below it. A
  \<open>parent_tag\<close> is the parent of a label that a \<open>find\<close> returned: its name and the
  texts of the elements the program looks for after it. A \<open>find\<close> for a label gives
  \<open>None\<close> when there is no such label, \<open>Some None\<close> for a label without parent, and
  the parent otherwise. \<open>find_string_nct\<close> is the first text of the page in which the
  pattern of an identifier occurs. An element is always true in a condition, whatever
  its content.
\<close>

record tag =
  tag_name :: string
  get_text :: string
  attrs :: "(string \<times> string) list"
  select_li :: "string list"

record parent_tag =
  parent_name :: string
  find_next_td :: "string option"
  find_next_value_div :: "string option"
  find_next_sibling_div :: "string option"

record soup =
  select :: "string \<Rightarrow> tag list"
  find_all :: "string \<Rightarrow> tag list"
  find_string :: "string \<Rightarrow> parent_tag option option"
  find_th_string :: "string \<Rightarrow> parent_tag option option"
  find_string_nct :: "string option"

text \<open>\<open>soup.select_one(sel)\<close> is the first element of \<open>soup.select(sel)\<close>, if any.\<close>

definition select_one :: "soup \<Rightarrow> string \<Rightarrow> tag option" where
  "select_one s sel = (case select s sel of [] \<Rightarrow> None | t # _ \<Rightarrow> Some t)"

text \<open>\<open>tag.get(key, default)\<close> on the attributes of an element.\<close>

definition tag_get :: "tag \<Rightarrow> string \<Rightarrow> string \<Rightarrow> string" where
  "tag_get t k d = (case map_of (attrs t) k of None \<Rightarrow> d | Some v \<Rightarrow> v)"

text \<open>
  An HTTP response as the program reads it: the status code, the result of
  \<open>response.json()\<close> (\<open>None\<close> when the body is not JSON and the call raises), the text
  that \<open>soup.get_text(separator=" ", strip=True)\<close> gives once the \<open>script\<close> and
  \<open>style\<close> elements are removed, and the parsed page.
\<close>

record response =
  status_code :: int
  json :: "pyval option"
  page_text :: string
  page :: soup

record request =
  url :: string
  params :: "(string \<times> pyval) list"
  headers :: "(string \<times> string) list"
  timeout :: "nat option"

text \<open>An entry of the arXiv client (the authors by their names, the date of
  publication as \<open>strftime("%Y-%m-%d")\<close> prints it, the URL of the PDF a string or
  \<open>None\<close>), and the generator \<open>client.results(search)\<close>: it yields an entry, stops,
  or raises.\<close>

record paper =
  entry_id :: string
  paper_title :: string
  paper_authors :: "string list"
  published_ymd :: string
  summary :: string
  paper_pdf_url :: pyval

datatype 'a generator = Stop | Raise | Yield 'a "'a generator"

text \<open>
  The world is the environment variables, the trace of what the program did so far, and
  what the remote services answer to the next call given that trace. \<open>remote\<close>
  answers \<open>requests.get\<close> (\<open>None\<close>: the call raises, for a timeout or any other
  transport failure), \<open>arxiv_client\<close> answers \<open>client.results\<close>,
  \<open>genai_start\<close> tells for a key and a model name whether configuring the generative
  service and opening a chat raises, \<open>chat_service\<close> answers
  \<open>chat.send_message(message).text\<close> with the text or with the exception raised.
  Sleeps are in milliseconds. An exception of the agent is a \<open>ValueError\<close> or an
  exception of the generative service, with the message that \<open>str(e)\<close> gives.
\<close>

datatype exn = ValueError string | ServiceError string

fun exn_str :: "exn \<Rightarrow> string" where
  "exn_str (ValueError m) = m"
| "exn_str (ServiceError m) = m"

datatype event =
    HttpGet request
  | Sleep nat
  | ArxivResults string int
  | SendMessage string

record world =
  environ :: "string \<Rightarrow> string option"
  remote :: "event list \<Rightarrow> response option"
  arxiv_client :: "event list \<Rightarrow> paper generator"
  genai_start :: "string \<Rightarrow> string \<Rightarrow> exn option"
  chat_service :: "event list \<Rightarrow> exn + string"
  trace :: "event list"

definition requests_get :: "request \<Rightarrow> world \<Rightarrow> response option \<times> world" where
  "requests_get r w = (let tr = trace w @ [HttpGet r] in (remote w tr, w\<lparr>trace := tr\<rparr>))"

definition time_sleep :: "nat \<Rightarrow> world \<Rightarrow> world" where
  "time_sleep ms w = w\<lparr>trace := trace w @ [Sleep ms]\<rparr>"

section \<open>SearchTool\<close>

text \<open>The two credentials, as \<open>os.getenv\<close> returned them: \<open>None\<close> when the variable is
  not set. A credential is usable when it is set and not empty.\<close>

record SearchTool =
  api_key :: "string option"
  search_engine_id :: "string option"

fun env_truthy :: "string option \<Rightarrow> bool" where
  "env_truthy None = False"
| "env_truthy (Some s) = (s \<noteq> [])"

definition browser_headers :: "(string \<times> string) list" where
  "browser_headers =
     [(''User-Agent'', ''Mozilla/5.0 (Windows NT 10.0; Win64; x64) AppleWebKit/537.36 (KHTML, like Gecko) Chrome/91.0.4472.124 Safari/537.36''),
      (''Accept'', ''text/html,application/xhtml+xml,application/xml;q=0.9,image/webp,*/*;q=0.8''),
      (''Accept-Language'', ''en-US,en;q=0.5'')]"

definition search_headers :: "(string \<times> string) list" where
  "search_headers =
     browser_headers @ [(''Connection'', ''keep-alive''), (''Upgrade-Insecure-Requests'', ''1'')]"

subsection \<open>\<open>_get_page_content\<close>\<close>

text \<open>The URL is whatever the search item had under \<open>link\<close>; \<open>requests\<close> takes its
  \<open>str\<close>. Any exception gives the empty string.\<close>

definition page_request :: "string \<Rightarrow> request" where
  "page_request u = \<lparr>url = u, params = [], headers = browser_headers, timeout = Some 15\<rparr>"

definition get_page_content :: "pyval \<Rightarrow> int \<Rightarrow> world \<Rightarrow> string \<times> world" where
  "get_page_content u max_chars w =
     (case requests_get (page_request (py_str u)) w of
        (None, w1) \<Rightarrow> ([], w1)
      | (Some resp, w1) \<Rightarrow> (py_take max_chars (page_text resp), w1))"

subsection \<open>\<open>google_search\<close>\<close>

text \<open>One turn of the loop over the items, up to the \<open>append\<close>: \<open>None\<close> when a key is
  missing (KeyError) or the item is not a dict (TypeError).\<close>

definition google_item :: "pyval \<Rightarrow> int \<Rightarrow> world \<Rightarrow> SearchResult option \<times> world" where
  "google_item item max_chars w =
     (case py_getitem item ''link'' of
        None \<Rightarrow> (None, w)
      | Some u \<Rightarrow>
          (case get_page_content u max_chars w of
             (b, w1) \<Rightarrow>
               (do {
                  t \<leftarrow> py_getitem item ''title'';
                  l \<leftarrow> py_getitem item ''link'';
                  s \<leftarrow> py_getitem item ''snippet'';
                  Some ((SearchResult_new t)\<lparr>link := l, snippet := s, body := PStr b\<rparr>)
                }, w1)))"

fun google_loop :: "pyval list \<Rightarrow> int \<Rightarrow> SearchResult list \<Rightarrow> world \<Rightarrow> SearchResult list option \<times> world" where
  "google_loop [] max_chars enriched_results w = (Some enriched_results, w)"
| "google_loop (item # rest) max_chars enriched_results w =
     (case google_item item max_chars w of
        (None, w1) \<Rightarrow> (None, w1)
      | (Some result, w1) \<Rightarrow>
          google_loop rest max_chars (enriched_results @ [result]) (time_sleep 1000 w1))"

text \<open>The request of the search, and the items the loop goes through: \<open>None\<close> when
  the body is not JSON, is not a dict, or \<open>items\<close> is not iterable.\<close>

definition google_request :: "string \<Rightarrow> string \<Rightarrow> string \<Rightarrow> int \<Rightarrow> request" where
  "google_request key cx query num_results =
     \<lparr>url = ''https://www.googleapis.com/customsearch/v1'',
      params = [(''key'', PStr key), (''cx'', PStr cx), (''q'', PStr query), (''num'', PInt num_results)],
      headers = [], timeout = None\<rparr>"

definition response_items :: "response \<Rightarrow> pyval list option" where
  "response_items resp =
     do { data \<leftarrow> json resp; items \<leftarrow> py_get data ''items'' (PList []); py_iter items }"

text \<open>The body of the \<open>try\<close>: \<open>None\<close> when it raises.\<close>

definition google_search_try :: "string \<Rightarrow> string \<Rightarrow> string \<Rightarrow> int \<Rightarrow> int \<Rightarrow> world \<Rightarrow> SearchResult list option \<times> world" where
  "google_search_try key cx query num_results max_chars w =
     (case requests_get (google_request key cx query num_results) w of
        (None, w1) \<Rightarrow> (None, w1)
      | (Some resp, w1) \<Rightarrow>
          if status_code resp \<noteq> 200 then (Some [], w1)
          else (case response_items resp of
                  None \<Rightarrow> (None, w1)
                | Some results \<Rightarrow> google_loop results max_chars [] w1))"

text \<open>The method. The result is \<open>Some\<close> list when the call returns and \<open>None\<close> when an
  exception leaves it.\<close>

definition google_search :: "SearchTool \<Rightarrow> string \<Rightarrow> int \<Rightarrow> int \<Rightarrow> world \<Rightarrow> SearchResult list option \<times> world" where
  "google_search self query num_results max_chars w =
     (if \<not> env_truthy (api_key self) \<or> \<not> env_truthy (search_engine_id self) then (Some [], w)
      else (case google_search_try (the (api_key self)) (the (search_engine_id self)) query num_results max_chars w of
              (None, w1) \<Rightarrow> (Some [], w1)
            | (Some results, w1) \<Rightarrow> (Some results, w1)))"

subsection \<open>\<open>arxiv_search\<close>\<close>

definition arxiv_result :: "paper \<Rightarrow> SearchResult" where
  "arxiv_result p =
     (let paper_id = last_segment (entry_id p);
          u = ''https://arxiv.org/abs/'' @ paper_id
      in (SearchResult_new (PStr (paper_title p)))
           \<lparr>authors := PList (map PStr (paper_authors p)),
            published := PStr (published_ymd p),
            abstract := PStr (summary p),
            pdf_url := paper_pdf_url p,
            arxiv_url := PStr u\<rparr>)"

fun arxiv_loop :: "paper generator \<Rightarrow> SearchResult list \<Rightarrow> world \<Rightarrow> SearchResult list option \<times> world" where
  "arxiv_loop Stop results w = (Some results, w)"
| "arxiv_loop Raise results w = (None, w)"
| "arxiv_loop (Yield p rest) results w =
     arxiv_loop rest (results @ [arxiv_result p]) (time_sleep 500 w)"

definition arxiv_search :: "string \<Rightarrow> int \<Rightarrow> world \<Rightarrow> SearchResult list option \<times> world" where
  "arxiv_search query max_results w =
     (let tr = trace w @ [ArxivResults query max_results] in
      case arxiv_loop (arxiv_client w tr) [] (w\<lparr>trace := tr\<rparr>) of
        (None, w1) \<Rightarrow> (Some [], w1)
      | (Some results, w1) \<Rightarrow> (Some results, w1))"

subsection \<open>\<open>_get_clinical_trial_details_api\<close>\<close>

text \<open>\<open>v.startswith(p)\<close>: only a string has it (AttributeError otherwise).\<close>

fun py_startswith :: "pyval \<Rightarrow> string \<Rightarrow> bool option" where
  "py_startswith (PStr s) p = Some (prefix p s)"
| "py_startswith _ p = None"

text \<open>The loop over the interventions keeps the names that are not empty.\<close>

fun intervention_names :: "pyval list \<Rightarrow> pyval list option" where
  "intervention_names [] = Some []"
| "intervention_names (intervention # rest) =
     do {
       intervention_name \<leftarrow> py_get intervention ''name'' (PStr []);
       names \<leftarrow> intervention_names rest;
       Some (if truthy intervention_name then intervention_name # names else names)
     }"

text \<open>What the function builds from the JSON of the single-study endpoint: \<open>None\<close>
  when a step raises.\<close>

definition details_of_study :: "pyval \<Rightarrow> pyval \<Rightarrow> SearchResult option" where
  "details_of_study n study =
     do {
       protocol_section \<leftarrow> py_get study ''protocolSection'' (PDict []);
       identification \<leftarrow> py_get protocol_section ''identificationModule'' (PDict []);
       description_module \<leftarrow> py_get protocol_section ''descriptionModule'' (PDict []);
       conditions_module \<leftarrow> py_get protocol_section ''conditionsModule'' (PDict []);
       intervention_module \<leftarrow> py_get protocol_section ''armsInterventionsModule'' (PDict []);
       t \<leftarrow> py_get identification ''briefTitle'' (PStr []);
       summ \<leftarrow> py_get description_module ''briefSummary'' (PStr []);
       detailed_desc \<leftarrow> py_get description_module ''detailedDescription'' (PStr []);
       conds \<leftarrow> py_get conditions_module ''conditions'' (PList []);
       ivs \<leftarrow> py_get intervention_module ''interventions'' (PList []);
       ivl \<leftarrow> py_iter ivs;
       interventions_list \<leftarrow> intervention_names ivl;
       Some ((SearchResult_new t)
               \<lparr>link := PStr (''https://clinicaltrials.gov/ct2/show/'' @ py_str n),
                nct_id := n,
                abstract := (if truthy summ then summ else detailed_desc),
                conditions := conds,
                interventions := PList interventions_list\<rparr>)
     }"

definition details_api_request :: "pyval \<Rightarrow> request" where
  "details_api_request n =
     \<lparr>url = ''https://clinicaltrials.gov/api/v2/studies/'' @ py_str n,
      params = [(''format'', PStr ''json'')], headers = [], timeout = Some 15\<rparr>"

text \<open>The method returns an optional record. The check of the identifier is before the
  \<open>try\<close>: on a value that is true and not a string it raises (the outer \<open>None\<close>).\<close>

definition get_clinical_trial_details_api :: "pyval \<Rightarrow> world \<Rightarrow> SearchResult option option \<times> world" where
  "get_clinical_trial_details_api n w =
     (if \<not> truthy n then (Some None, w)
      else (case py_startswith n ''NCT'' of
              None \<Rightarrow> (None, w)
            | Some False \<Rightarrow> (Some None, w)
            | Some True \<Rightarrow>
                (case requests_get (details_api_request n) w of
                   (None, w1) \<Rightarrow> (Some None, w1)
                 | (Some resp, w1) \<Rightarrow>
                     if status_code resp \<noteq> 200 then (Some None, w1)
                     else (Some (do { study \<leftarrow> json resp; details_of_study n study }), w1))))"

subsection \<open>\<open>clinicaltrials_search_beta_api\<close>\<close>

text \<open>\<open>summary[:200] + "..." if len(summary) > 200 else summary\<close>\<close>

definition snippet_of :: "pyval \<Rightarrow> pyval option" where
  "snippet_of summ =
     do {
       n \<leftarrow> py_len summ;
       if n > 200 then do { s \<leftarrow> py_slice_to summ 200; py_add_str s ''...'' } else Some summ
     }"

text \<open>The brief summary of a study, as the loop reads it.\<close>

definition brief_summary :: "pyval \<Rightarrow> pyval option" where
  "brief_summary study =
     do {
       protocol_section \<leftarrow> py_get study ''protocolSection'' (PDict []);
       description_module \<leftarrow> py_get protocol_section ''descriptionModule'' (PDict []);
       py_get description_module ''briefSummary'' (PStr [])
     }"

text \<open>
  One turn of the loop over the studies, up to the \<open>append\<close>: the study is skipped
  (\<open>Continue\<close>) when it has no identifier, or a record is built; the step keeps the two
  summary texts, which decide whether the details are fetched.
\<close>

datatype study_step = Continue | Append SearchResult pyval pyval

definition beta_api_study :: "pyval \<Rightarrow> study_step option" where
  "beta_api_study study =
     do {
       protocol_section \<leftarrow> py_get study ''protocolSection'' (PDict []);
       identification \<leftarrow> py_get protocol_section ''identificationModule'' (PDict []);
       status_module \<leftarrow> py_get protocol_section ''statusModule'' (PDict []);
       design_module \<leftarrow> py_get protocol_section ''designModule'' (PDict []);
       conditions_module \<leftarrow> py_get protocol_section ''conditionsModule'' (PDict []);
       description_module \<leftarrow> py_get protocol_section ''descriptionModule'' (PDict []);
       n \<leftarrow> py_get identification ''nctId'' (PStr []);
       if \<not> truthy n then Some Continue
       else do {
         t \<leftarrow> py_get identification ''briefTitle'' (PStr []);
         official_title \<leftarrow> py_get identification ''officialTitle'' (PStr []);
         st \<leftarrow> py_get design_module ''studyType'' (PStr []);
         phase_list \<leftarrow> py_get design_module ''phases'' (PList []);
         ph \<leftarrow> (if truthy phase_list then map_option PStr (py_join '', '' phase_list)
                 else Some (PStr ''Not Specified''));
         stat \<leftarrow> py_get status_module ''overallStatus'' (PStr []);
         conds \<leftarrow> py_get conditions_module ''conditions'' (PList []);
         summ \<leftarrow> py_get description_module ''briefSummary'' (PStr []);
         detailed_desc \<leftarrow> py_get description_module ''detailedDescription'' (PStr []);
         snip \<leftarrow> snippet_of summ;
         Some (Append
                 ((SearchResult_new (if truthy t then t else official_title))
                    \<lparr>link := PStr (''https://clinicaltrials.gov/ct2/show/'' @ py_str n),
                     snippet := snip,
                     abstract := (if truthy summ then summ else detailed_desc),
                     nct_id := n,
                     status := stat,
                     study_type := st,
                     phase := ph,
                     conditions := conds\<rparr>)
                 summ detailed_desc)
       }
     }"

text \<open>
  The enrichment. The program appends the record to the list and then assigns to its
  fields, so the list holds the record as assigned; the model appends it afterwards.
  The details are fetched when neither summary text is there, and the three fields are
  assigned when the fetch returned a record.
\<close>

definition enrich :: "SearchResult \<Rightarrow> SearchResult \<Rightarrow> SearchResult" where
  "enrich result detailed_study =
     result\<lparr>abstract := abstract detailed_study,
            conditions := conditions detailed_study,
            interventions := interventions detailed_study\<rparr>"

definition beta_api_enrich :: "SearchResult \<Rightarrow> pyval \<Rightarrow> pyval \<Rightarrow> world \<Rightarrow> SearchResult option \<times> world" where
  "beta_api_enrich result summ detailed_desc w =
     (if \<not> truthy summ \<and> \<not> truthy detailed_desc then
        (case get_clinical_trial_details_api (nct_id result) w of
           (None, w1) \<Rightarrow> (None, w1)
         | (Some None, w1) \<Rightarrow> (Some result, w1)
         | (Some (Some detailed_study), w1) \<Rightarrow> (Some (enrich result detailed_study), w1))
      else (Some result, w))"

fun beta_api_loop :: "pyval list \<Rightarrow> SearchResult list \<Rightarrow> world \<Rightarrow> SearchResult list option \<times> world" where
  "beta_api_loop [] results w = (Some results, w)"
| "beta_api_loop (study # rest) results w =
     (case beta_api_study study of
        None \<Rightarrow> (None, w)
      | Some Continue \<Rightarrow> beta_api_loop rest results w
      | Some (Append result summ detailed_desc) \<Rightarrow>
          (case beta_api_enrich result summ detailed_desc w of
             (None, w1) \<Rightarrow> (None, w1)
           | (Some r, w1) \<Rightarrow> beta_api_loop rest (results @ [r]) (time_sleep 2000 w1)))"

definition beta_api_request :: "string \<Rightarrow> int \<Rightarrow> request" where
  "beta_api_request query max_results =
     \<lparr>url = ''https://clinicaltrials.gov/api/v2/studies'',
      params = [(''query.term'', PStr query), (''pageSize'', PInt max_results), (''format'', PStr ''json'')],
      headers = [], timeout = Some 15\<rparr>"

definition response_studies :: "response \<Rightarrow> pyval option" where
  "response_studies resp = do { data \<leftarrow> json resp; py_get data ''studies'' (PList []) }"

definition beta_api_try :: "string \<Rightarrow> int \<Rightarrow> world \<Rightarrow> SearchResult list option \<times> world" where
  "beta_api_try query max_results w =
     (case requests_get (beta_api_request query max_results) w of
        (None, w1) \<Rightarrow> (None, w1)
      | (Some resp, w1) \<Rightarrow>
          if status_code resp \<noteq> 200 then (Some [], w1)
          else (case response_studies resp of
                  None \<Rightarrow> (None, w1)
                | Some studies \<Rightarrow>
                    if \<not> truthy studies then (Some [], w1)
                    else (case py_iter studies of
                            None \<Rightarrow> (None, w1)
                          | Some ss \<Rightarrow> beta_api_loop ss [] w1)))"

definition clinicaltrials_search_beta_api :: "string \<Rightarrow> int \<Rightarrow> world \<Rightarrow> SearchResult list option \<times> world" where
  "clinicaltrials_search_beta_api query max_results w =
     (case beta_api_try query max_results w of
        (None, w1) \<Rightarrow> (Some [], w1)
      | (Some results, w1) \<Rightarrow> (Some results, w1))"

subsection \<open>\<open>_get_clinical_trial_details_scrape\<close>\<close>

text \<open>
  Once the page is fetched with status 200 the function returns a record: the selectors
  it gives to \<open>select_one\<close> are fixed and well formed, the selectors with \<open>:contains\<close>
  are handled by the program, and a field for which nothing is found keeps its default.
  The identifier of the study is taken from the URL or, failing that, from the page.
\<close>

definition scrape_nct_id :: "string \<Rightarrow> soup \<Rightarrow> string" where
  "scrape_nct_id u s =
     (if py_in ''/ct2/show/'' u then last_segment u
      else (case nct_search u of
              Some m \<Rightarrow> m
            | None \<Rightarrow>
                (case find_string_nct s of
                   Some nct_elem \<Rightarrow>
                     if nct_elem \<noteq> [] then (case nct_search nct_elem of Some m \<Rightarrow> m | None \<Rightarrow> ''Unknown'')
                     else ''Unknown''
                 | None \<Rightarrow> ''Unknown'')))"

text \<open>The loops over the candidate selectors of the title and of the summary: the first
  selector with an element gives the value, and the loop stops there.\<close>

definition title_selectors :: "string list" where
  "title_selectors = [''h1.tr-h1'', ''h1.ct-title'', ''.headline-title'']"

fun title_loop :: "soup \<Rightarrow> string list \<Rightarrow> string \<Rightarrow> string" where
  "title_loop s [] t = t"
| "title_loop s (selector # rest) t =
     (case select_one s selector of
        Some title_elem \<Rightarrow> py_strip (get_text title_elem)
      | None \<Rightarrow> title_loop s rest t)"

definition summary_selectors :: "string list" where
  "summary_selectors =
     [''#brief-summary div.tr-indent2'', ''.ct-body__section div.tr-indent1'', ''section#brief-summary'']"

fun summary_loop :: "soup \<Rightarrow> string list \<Rightarrow> string \<Rightarrow> string" where
  "summary_loop s [] summ = summ"
| "summary_loop s (selector # rest) summ =
     (case select_one s selector of
        Some summary_elem \<Rightarrow> py_strip (get_text summary_elem)
      | None \<Rightarrow> summary_loop s rest summ)"

text \<open>
  A selector with \<open>:contains\<close> is handled by the program itself: the text between
  \<open>:contains(\<close> and the end, without quotes and parentheses, is looked for in the
  elements of the given name. The outer \<open>None\<close> is the exception of the inner \<open>try\<close>
  (an index out of range), which makes the loop go to the next selector.
\<close>

definition contains_text :: "string \<Rightarrow> string option" where
  "contains_text selector =
     (case py_split '':contains('' selector of
        _ # x # _ \<Rightarrow> Some (py_strip_chars [CHR 0x27, CHR '')''] x)
      | _ \<Rightarrow> None)"

definition select_elem :: "soup \<Rightarrow> string \<Rightarrow> string \<Rightarrow> tag option option" where
  "select_elem s elem_name selector =
     (if py_in '':contains'' selector then
        (case contains_text selector of
           None \<Rightarrow> None
         | Some txt \<Rightarrow> Some (find (\<lambda>p. py_in txt (get_text p)) (find_all s elem_name)))
      else Some (select_one s selector))"

definition status_selectors :: "string list" where
  "status_selectors =
     [''.ct-recruitment-status div.ct-recruitment-status__label'',
      ''.statusLabel'',
      ''p:contains('' @ [CHR 0x27] @ ''Recruitment Status:'' @ [CHR 0x27] @ '')'']"

definition status_of_text :: "string \<Rightarrow> string" where
  "status_of_text status_text =
     (if py_in ''Status:'' status_text then py_strip (py_split ''Status:'' status_text ! 1)
      else status_text)"

fun status_loop :: "soup \<Rightarrow> string list \<Rightarrow> string \<Rightarrow> string" where
  "status_loop s [] st = st"
| "status_loop s (selector # rest) st =
     (case select_elem s ''p'' selector of
        Some (Some status_elem) \<Rightarrow> status_of_text (py_strip (get_text status_elem))
      | _ \<Rightarrow> status_loop s rest st)"

text \<open>
  Study type and phase: each candidate finds a label; the value is the \<open>td\<close> after the
  parent of the label when the parent is a \<open>th\<close>, otherwise the next \<open>div\<close> of class
  \<open>ct-data-elem__value\<close> or, without one, the next sibling \<open>div\<close>. A candidate
  without label, parent or value leaves the field to the next candidate.
\<close>

definition label_value :: "parent_tag option option \<Rightarrow> string option" where
  "label_value lbl =
     (case lbl of
        Some (Some p) \<Rightarrow>
          if parent_name p = ''th'' then find_next_td p
          else (case find_next_value_div p of
                  Some v \<Rightarrow> Some v
                | None \<Rightarrow> find_next_sibling_div p)
      | _ \<Rightarrow> None)"

fun label_loop :: "parent_tag option option list \<Rightarrow> string \<Rightarrow> string" where
  "label_loop [] d = d"
| "label_loop (lbl # rest) d =
     (case label_value lbl of
        Some value_text \<Rightarrow> py_strip value_text
      | None \<Rightarrow> label_loop rest d)"

definition study_type_selectors :: "soup \<Rightarrow> parent_tag option option list" where
  "study_type_selectors s = [find_string s ''Study Type:'', find_th_string s ''Study Type'']"

definition phase_selectors :: "soup \<Rightarrow> parent_tag option option list" where
  "phase_selectors s = [find_string s ''Phase:'', find_th_string s ''Phase'']"

text \<open>Conditions: the items of the first section found, or its text after the first
  colon, split at the commas.\<close>

definition conditions_selectors :: "string list" where
  "conditions_selectors =
     [''#conditions'', ''section#conditions'',
      ''section:contains('' @ [CHR 0x27] @ ''Condition'' @ [CHR 0x27] @ '')'']"

definition conditions_of_section :: "tag \<Rightarrow> string list" where
  "conditions_of_section conditions_section =
     (if select_li conditions_section \<noteq> [] then map py_strip (select_li conditions_section)
      else (let conditions_text = py_strip (get_text conditions_section);
                conditions_text' = (if py_in '':'' conditions_text
                                    then py_strip (py_split1 '':'' conditions_text ! 1)
                                    else conditions_text)
            in map py_strip (py_split '','' conditions_text')))"

fun conditions_loop :: "soup \<Rightarrow> string list \<Rightarrow> string list \<Rightarrow> string list" where
  "conditions_loop s [] conds = conds"
| "conditions_loop s (selector # rest) conds =
     (case select_elem s ''section'' selector of
        Some (Some conditions_section) \<Rightarrow> conditions_of_section conditions_section
      | _ \<Rightarrow> conditions_loop s rest conds)"

text \<open>\<open>summary[:200] + "..." if summary and len(summary) > 200 else summary\<close>\<close>

definition scrape_snippet :: "string \<Rightarrow> string" where
  "scrape_snippet summ = (if summ \<noteq> [] \<and> length summ > 200 then take 200 summ @ ''...'' else summ)"

definition scrape_record :: "string \<Rightarrow> soup \<Rightarrow> SearchResult" where
  "scrape_record u s =
     (let n = scrape_nct_id u s;
          t = title_loop s title_selectors ''Unknown Title'';
          stat = status_loop s status_selectors ''Unknown'';
          summ = summary_loop s summary_selectors [];
          st = label_loop (study_type_selectors s) [];
          ph = label_loop (phase_selectors s) [];
          conds = conditions_loop s conditions_selectors []
      in (SearchResult_new (PStr t))
           \<lparr>link := PStr u,
            snippet := PStr (scrape_snippet summ),
            abstract := PStr summ,
            nct_id := PStr n,
            status := PStr stat,
            study_type := PStr st,
            phase := PStr ph,
            conditions := PList (map PStr conds)\<rparr>)"

definition get_clinical_trial_details_scrape :: "string \<Rightarrow> world \<Rightarrow> SearchResult option \<times> world" where
  "get_clinical_trial_details_scrape u w =
     (case requests_get (page_request u) w of
        (None, w1) \<Rightarrow> (None, w1)
      | (Some resp, w1) \<Rightarrow>
          if status_code resp \<noteq> 200 then (None, w1)
          else (Some (scrape_record u (page resp)), w1))"

subsection \<open>\<open>clinicaltrials_search_scrape\<close>\<close>

text \<open>The identifier in the \<open>href\<close> of a result link; \<open>None\<close> when there is none and
  the link is skipped.\<close>

definition href_nct_id :: "string \<Rightarrow> string option" where
  "href_nct_id href =
     (if py_in ''/study/'' href then Some (last_segment href)
      else if py_in ''/ct2/show/'' href then Some (last_segment href)
      else nct_search href)"

fun scrape_loop :: "tag list \<Rightarrow> SearchResult list \<Rightarrow> world \<Rightarrow> SearchResult list \<times> world" where
  "scrape_loop [] results w = (results, w)"
| "scrape_loop (lnk # rest) results w =
     (let href = tag_get lnk ''href'' [] in
      if href = [] then scrape_loop rest results w
      else (case href_nct_id href of
              None \<Rightarrow> scrape_loop rest results w
            | Some n \<Rightarrow>
                (case get_clinical_trial_details_scrape (''https://clinicaltrials.gov/ct2/show/'' @ n) w of
                   (None, w1) \<Rightarrow> scrape_loop rest results w1
                 | (Some study_info, w1) \<Rightarrow>
                     scrape_loop rest (results @ [study_info]) (time_sleep 2000 w1))))"

definition scrape_request :: "string \<Rightarrow> request" where
  "scrape_request query =
     \<lparr>url = ''https://clinicaltrials.gov/search'',
      params = [(''term'', PStr query), (''draw'', PInt 1), (''rank'', PInt 1)],
      headers = search_headers, timeout = Some 15\<rparr>"

definition scrape_try :: "string \<Rightarrow> int \<Rightarrow> world \<Rightarrow> SearchResult list option \<times> world" where
  "scrape_try query max_results w =
     (case requests_get (scrape_request query) w of
        (None, w1) \<Rightarrow> (None, w1)
      | (Some resp, w1) \<Rightarrow>
          if status_code resp \<noteq> 200 then (Some [], w1)
          else (let study_links =
                      py_take max_results
                        (select (page resp) ''.ct-search-result a.ct-search-result__title-link'')
                in if study_links = [] then (Some [], w1)
                   else (case scrape_loop study_links [] w1 of (results, w2) \<Rightarrow> (Some results, w2))))"

definition clinicaltrials_search_scrape :: "string \<Rightarrow> int \<Rightarrow> world \<Rightarrow> SearchResult list option \<times> world" where
  "clinicaltrials_search_scrape query max_results w =
     (case scrape_try query max_results w of
        (None, w1) \<Rightarrow> (Some [], w1)
      | (Some results, w1) \<Rightarrow> (Some results, w1))"

section \<open>Agent\<close>

text \<open>
  The wrapper of the generative session. \<open>model\<close> and \<open>chat\<close> are \<open>None\<close> when
  setting up the service raised; a chat that is there holds its history. The key of
  the agent is named \<open>agent_api_key\<close>, since \<open>api_key\<close> is the field of the search
  tool. The constructor raises ValueError (\<open>Inl\<close>) when the key is not set or empty.
\<close>

record Agent =
  name :: string
  agent_api_key :: string
  model :: "string option"
  chat :: "string list option"

definition Agent_init :: "string \<Rightarrow> string \<Rightarrow> world \<Rightarrow> exn + Agent" where
  "Agent_init nm mdl w =
     (let key = environ w ''GOOGLE_API_KEY'' in
      if \<not> env_truthy key then Inl (ValueError ''GOOGLE_API_KEY environment variable not set'')
      else (case genai_start w (the key) mdl of
              None \<Rightarrow> Inr \<lparr>name = nm, agent_api_key = the key, model = Some mdl, chat = Some []\<rparr>
            | Some e \<Rightarrow> Inr \<lparr>name = nm, agent_api_key = the key, model = None, chat = None\<rparr>))"

definition process :: "Agent \<Rightarrow> string \<Rightarrow> world \<Rightarrow> (exn + string) \<times> world" where
  "process self message w =
     (case chat self of
        None \<Rightarrow> (Inr ''Error: Agent not properly initialized'', w)
      | Some h \<Rightarrow>
          (let tr = trace w @ [SendMessage message] in
           (case chat_service w tr of
              Inr response_text \<Rightarrow> Inr response_text
            | Inl e \<Rightarrow> Inr (''Error processing message: '' @ exn_str e),
            w\<lparr>trace := tr\<rparr>)))"

section \<open>MultiAgentSystem\<close>

record MultiAgentSystem =
  google_agent :: Agent
  arxiv_agent :: Agent
  clinical_trials_agent :: Agent
  report_agent :: Agent
  search_tool :: SearchTool

definition SearchTool_init :: "world \<Rightarrow> SearchTool" where
  "SearchTool_init w =
     \<lparr>api_key = environ w ''GOOGLE_API_KEY'', search_engine_id = environ w ''GOOGLE_SEARCH_ENGINE_ID''\<rparr>"

definition MultiAgentSystem_init :: "world \<Rightarrow> exn + MultiAgentSystem" where
  "MultiAgentSystem_init w =
     (case Agent_init ''Google_Search_Agent'' ''gemini-pro'' w of
        Inl e \<Rightarrow> Inl e
      | Inr a1 \<Rightarrow>
     (case Agent_init ''Arxiv_Search_Agent'' ''gemini-pro'' w of
        Inl e \<Rightarrow> Inl e
      | Inr a2 \<Rightarrow>
     (case Agent_init ''ClinicalTrials_Search_Agent'' ''gemini-pro'' w of
        Inl e \<Rightarrow> Inl e
      | Inr a3 \<Rightarrow>
     (case Agent_init ''Report_Agent'' ''gemini-pro'' w of
        Inl e \<Rightarrow> Inl e
      | Inr a4 \<Rightarrow>
          Inr \<lparr>google_agent = a1, arxiv_agent = a2, clinical_trials_agent = a3,
               report_agent = a4, search_tool = SearchTool_init w\<rparr>))))"

subsection \<open>\<open>run_literature_review\<close>\<close>

text \<open>
  The orchestrator adds to a context the text of each record of a list. \<open>None\<close> is
  a TypeError, which nothing in the orchestrator catches: a value that cannot be sliced,
  or an item of a joined list that is not a string.
\<close>

definition nl :: string where
  "nl = [CHR 0x0A]"

fun context_loop :: "(SearchResult \<Rightarrow> string option) \<Rightarrow> SearchResult list \<Rightarrow> string \<Rightarrow> string option" where
  "context_loop f [] ctx = Some ctx"
| "context_loop f (result # rest) ctx =
     (case f result of None \<Rightarrow> None | Some t \<Rightarrow> context_loop f rest (ctx @ t))"

text \<open>Step 1: the web search.\<close>

definition google_result_context :: "SearchResult \<Rightarrow> string option" where
  "google_result_context result =
     do {
       b \<leftarrow> py_slice_to (body result) 500;
       Some (nl @ ''Title: '' @ py_str (title result) @ nl
             @ ''Snippet: '' @ py_str (snippet result) @ nl
             @ ''Content: '' @ py_str b @ ''...'' @ nl)
     }"

definition google_context :: "string \<Rightarrow> SearchResult list \<Rightarrow> string option" where
  "google_context topic google_results =
     (let ctx = ''Based on Google search for '' @ [CHR 0x27] @ topic @ [CHR 0x27]
                @ '', here are the findings:'' @ nl
      in if google_results \<noteq> [] then context_loop google_result_context google_results ctx
         else Some (ctx @ nl @ ''No Google search results found.'' @ nl))"

text \<open>Step 2: the preprints.\<close>

definition arxiv_result_context :: "SearchResult \<Rightarrow> string option" where
  "arxiv_result_context result =
     (let authors_list = (if truthy (authors result) then authors result else PList []) in
      do {
        a \<leftarrow> py_join '', '' authors_list;
        Some (nl @ ''Title: '' @ py_str (title result) @ nl
              @ ''Authors: '' @ a @ nl
              @ ''Published: '' @ py_str (published result) @ nl
              @ ''Abstract: '' @ py_str (abstract result) @ nl
              @ ''URL: '' @ py_str (arxiv_url result) @ nl)
      })"

definition arxiv_context :: "string \<Rightarrow> SearchResult list \<Rightarrow> string option" where
  "arxiv_context topic arxiv_results =
     (let ctx = nl @ ''Based on Arxiv search for '' @ [CHR 0x27] @ topic @ [CHR 0x27]
                @ '', here are the academic papers:'' @ nl
      in if arxiv_results \<noteq> [] then context_loop arxiv_result_context arxiv_results ctx
         else Some (ctx @ nl @ ''No Arxiv papers found.'' @ nl))"

text \<open>Step 3: the registry. The structured API first, with the default of two
  results; the scrape when the list it returned is empty.\<close>

definition registry_search :: "string \<Rightarrow> world \<Rightarrow> SearchResult list option \<times> world" where
  "registry_search topic w =
     (case clinicaltrials_search_beta_api topic 2 w of
        (None, w1) \<Rightarrow> (None, w1)
      | (Some clinical_trials_results, w1) \<Rightarrow>
          if clinical_trials_results = [] then clinicaltrials_search_scrape topic 2 w1
          else (Some clinical_trials_results, w1))"

text \<open>The text added to the context for one record of the registry; \<open>summary_line\<close>
  is the line of the summary and \<open>conditions_line\<close> the line of the conditions.\<close>

definition summary_line :: "pyval \<Rightarrow> string option" where
  "summary_line a = do { s \<leftarrow> py_slice_to a 300; Some (''Summary: '' @ py_str s @ ''...'' @ nl) }"

definition conditions_line :: "pyval \<Rightarrow> string option" where
  "conditions_line c =
     (let conditions_list = (if truthy c then c else PList []) in
      do {
        cs \<leftarrow> (if truthy conditions_list then py_join '', '' conditions_list else Some ''Not specified'');
        Some (''Conditions: '' @ cs @ nl)
      })"

definition trial_context :: "SearchResult \<Rightarrow> string option" where
  "trial_context result =
     do {
       cl \<leftarrow> conditions_line (conditions result);
       sl \<leftarrow> summary_line (abstract result);
       Some (nl @ ''Title: '' @ py_str (title result) @ nl
             @ ''NCT ID: '' @ py_str (nct_id result) @ nl
             @ ''Status: '' @ py_str (status result) @ nl
             @ ''Study Type: '' @ py_str (study_type result) @ nl
             @ ''Phase: '' @ py_str (phase result) @ nl
             @ cl @ sl
             @ ''URL: '' @ py_str (link result) @ nl)
     }"

definition clinical_trials_context :: "string \<Rightarrow> SearchResult list \<Rightarrow> string option" where
  "clinical_trials_context topic clinical_trials_results =
     (let ctx = nl @ ''Based on ClinicalTrials.gov search for '' @ [CHR 0x27] @ topic @ [CHR 0x27]
                @ '', here are the clinical trials:'' @ nl
      in if clinical_trials_results \<noteq> [] then context_loop trial_context clinical_trials_results ctx
         else Some (ctx @ nl @ ''No clinical trials found.'' @ nl))"

text \<open>Step 4: the prompt. Every line of the template starts with eight spaces.\<close>

definition ind :: string where
  "ind = ''        ''"

definition report_prompt :: "string \<Rightarrow> string \<Rightarrow> string \<Rightarrow> string \<Rightarrow> string" where
  "report_prompt topic gc ac cc =
     nl @ ind @ ''Generate a comprehensive literature review on '' @ topic
        @ '' based on the following sources:'' @ nl
     @ nl @ ind @ gc @ nl
     @ nl @ ind @ ac @ nl
     @ nl @ ind @ cc @ nl
     @ nl @ ind @ ''Please provide a well-structured literature review that:'' @ nl
     @ ind @ ''1. Synthesizes the main findings and themes'' @ nl
     @ ind @ ''2. Identifies key research directions'' @ nl
     @ ind @ ''3. Includes proper citations with clickable links'' @ nl
     @ ind @ ''4. Concludes with future research directions'' @ nl
     @ nl @ ind @ ''Important links to include:'' @ nl
     @ ind @ ''- ClinicalTrials.gov links with NCT IDs should use format: https://clinicaltrials.gov/ct2/show/NCTXXXXXXXX '' @ nl
     @ ind @ ''- arXiv links for academic papers'' @ nl
     @ nl @ ind @ ''For the References section, use these exact formats:'' @ nl
     @ ind @ ''For arXiv papers: Author(s), '' @ [CHR 0x22] @ ''Title'' @ [CHR 0x22]
           @ '', [arXiv:XXXX.XXXXX](https://arxiv.org/abs/XXXX.XXXXX)'' @ nl
     @ ind @ ''For clinical trials: '' @ [CHR 0x22] @ ''Title'' @ [CHR 0x22]
           @ '', [NCT ID: NCTXXXXXXXX](https://clinicaltrials.gov/ct2/show/NCTXXXXXXXX)'' @ nl
     @ nl @ ind @ ''If no results were found in a particular source, please mention that in your review.'' @ nl
     @ ind"

text \<open>
  The whole review: the three searches in their fixed order, each followed by its
  context, then the prompt, sent to the report agent, whose text is returned as it is.
  The outer \<open>None\<close> is an exception that leaves the method.
\<close>

definition run_literature_review :: "MultiAgentSystem \<Rightarrow> string \<Rightarrow> world \<Rightarrow> string option \<times> world" where
  "run_literature_review self topic w =
     (case google_search (search_tool self) topic 2 500 w of
        (None, w1) \<Rightarrow> (None, w1)
      | (Some google_results, w1) \<Rightarrow>
     (case google_context topic google_results of
        None \<Rightarrow> (None, w1)
      | Some gc \<Rightarrow>
     (case arxiv_search topic 2 w1 of
        (None, w2) \<Rightarrow> (None, w2)
      | (Some arxiv_results, w2) \<Rightarrow>
     (case arxiv_context topic arxiv_results of
        None \<Rightarrow> (None, w2)
      | Some ac \<Rightarrow>
     (case registry_search topic w2 of
        (None, w3) \<Rightarrow> (None, w3)
      | (Some clinical_trials_results, w3) \<Rightarrow>
     (case clinical_trials_context topic clinical_trials_results of
        None \<Rightarrow> (None, w3)
      | Some cc \<Rightarrow>
     (case process (report_agent self) (report_prompt topic gc ac cc) w3 of
        (Inl e, w4) \<Rightarrow> (None, w4)
      | (Inr report, w4) \<Rightarrow> (Some report, w4))))))))"

section \<open>The renderer of the application\<close>

text \<open>
  \<open>render_search_results\<close> of \<open>app.py\<close>, as the calls it makes to the UI library for
  one record. \<open>title.split()\<close> splits at runs of whitespace. The label of the expander
  starts with the character U+1F4C4, written here as its four bytes in UTF-8.
\<close>

datatype st_call = st_warning string | st_expander string | st_write "pyval list"

fun words_from :: "string \<Rightarrow> string \<Rightarrow> string list" where
  "words_from cur [] = (if cur = [] then [] else [cur])"
| "words_from cur (c # cs) =
     (if is_space c then (if cur = [] then words_from [] cs else cur # words_from [] cs)
      else words_from (cur @ [c]) cs)"

fun py_split_ws :: "pyval \<Rightarrow> string list option" where
  "py_split_ws (PStr s) = Some (words_from [] s)"
| "py_split_ws _ = None"

definition render_result :: "SearchResult \<Rightarrow> st_call list option" where
  "render_result result =
     do {
       a \<leftarrow> (if truthy (authors result)
               then map_option (\<lambda>j. [st_write [PStr (''**Authors:** '' @ j)]]) (py_join '', '' (authors result))
               else Some []);
       ws \<leftarrow> py_split_ws (title result);
       Some ([st_expander ([CHR 0xF0, CHR 0x9F, CHR 0x93, CHR 0x84] @ '' '' @ py_str (title result))]
             @ a
             @ (if truthy (published result)
                then [st_write [PStr (''**Published:** '' @ py_str (published result))]] else [])
             @ (if truthy (abstract result)
                then [st_write [PStr ''**Abstract:**'', abstract result]] else [])
             @ (if truthy (arxiv_url result)
                then [st_write [PStr (''[View on arXiv]('' @ py_str (arxiv_url result) @ '')'')]] else [])
             @ (if truthy (pdf_url result)
                then [st_write [PStr (''[Download PDF]('' @ py_str (pdf_url result) @ '')'')]] else [])
             @ [st_write [PStr (''[Search on ClinicalTrials.gov](https://clinicaltrials.gov/search?term=''
                                @ join ''+'' ws @ '')'')]])
     }"

fun render_loop :: "SearchResult list \<Rightarrow> st_call list option" where
  "render_loop [] = Some []"
| "render_loop (result # rest) =
     (case render_result result of
        None \<Rightarrow> None
      | Some calls \<Rightarrow> map_option (\<lambda>cs. calls @ cs) (render_loop rest))"

definition render_search_results :: "SearchResult list \<Rightarrow> st_call list option" where
  "render_search_results results =
     (if results = [] then Some [st_warning ''No results found''] else render_loop results)"

section \<open>What the remote services sent\<close>

text \<open>
  Observations on the world, used to state the properties: the number of entries a
  generator yields and whether it raises; the answer of the remote side to a request
  made next; whether that answer is a failure (the request raised, or the status is not
  200) or has a body that is not JSON; and the number of items, or of studies, in it.
\<close>

fun yielded :: "'a generator \<Rightarrow> nat" where
  "yielded Stop = 0"
| "yielded Raise = 0"
| "yielded (Yield x g) = Suc (yielded g)"

fun raises :: "'a generator \<Rightarrow> bool" where
  "raises Stop = False"
| "raises Raise = True"
| "raises (Yield x g) = raises g"

definition answer :: "world \<Rightarrow> request \<Rightarrow> response option" where
  "answer w r = remote w (trace w @ [HttpGet r])"

definition failed :: "response option \<Rightarrow> bool" where
  "failed a = (case a of None \<Rightarrow> True | Some resp \<Rightarrow> status_code resp \<noteq> 200)"

definition not_json :: "response option \<Rightarrow> bool" where
  "not_json a = (case a of None \<Rightarrow> False | Some resp \<Rightarrow> json resp = None)"



text \<open>The requests to the search page of the registry in the trace of a world. The
  scrape of the registry makes this request once, first of all, each time it is called,
  and nothing else requests that URL: the count tells how often the scrape was invoked.\<close>

definition is_scrape_search :: "event \<Rightarrow> bool" where
  "is_scrape_search e =
     (case e of HttpGet r \<Rightarrow> url r = ''https://clinicaltrials.gov/search'' | _ \<Rightarrow> False)"

definition scrape_searches :: "world \<Rightarrow> nat" where
  "scrape_searches w = length (filter is_scrape_search (trace w))"

text \<open>
  The selector policy in the words of the specification: the candidates are tried in the
  order of the list, and the first that gives a match is taken. \<open>found\<close> reads the
  result of a selector that the program runs inside a \<open>try\<close>.
\<close>

definition first_match :: "('a \<Rightarrow> 'b option) \<Rightarrow> 'a list \<Rightarrow> 'b option" where
  "first_match f cands = (case find (\<lambda>c. f c \<noteq> None) cands of None \<Rightarrow> None | Some c \<Rightarrow> f c)"

definition found :: "'a option option \<Rightarrow> 'a option" where
  "found r = (case r of Some (Some e) \<Rightarrow> Some e | _ \<Rightarrow> None)"

section \<open>The record of a study in closed form\<close>

text \<open>
  What the structured registry API makes of a study, written without the loop: every
  field is the value the study has for it, or the default of the program when the study
  does not have it. \<open>lookup\<close> is the \<open>get\<close> of a dict with its default, \<open>study_field\<close>
  reads a key of a module of the protocol section, \<open>has_id\<close> says that the study has an
  identifier. A study is plain when the protocol section and the five modules the loop
  reads are dicts (or absent), its phases can be joined, its brief summary is a string,
  and one of the two summary texts is there, so that no detail is fetched for it.
\<close>

fun is_dict :: "pyval \<Rightarrow> bool" where
  "is_dict (PDict kvs) = True"
| "is_dict _ = False"

fun is_str :: "pyval \<Rightarrow> bool" where
  "is_str (PStr s) = True"
| "is_str _ = False"

fun lookup :: "pyval \<Rightarrow> string \<Rightarrow> pyval \<Rightarrow> pyval" where
  "lookup (PDict kvs) k d = (case map_of kvs k of None \<Rightarrow> d | Some v \<Rightarrow> v)"
| "lookup _ k d = d"

definition study_module :: "pyval \<Rightarrow> string \<Rightarrow> pyval" where
  "study_module study m = lookup (lookup study ''protocolSection'' (PDict [])) m (PDict [])"

definition study_field :: "pyval \<Rightarrow> string \<Rightarrow> string \<Rightarrow> pyval \<Rightarrow> pyval" where
  "study_field study m k d = lookup (study_module study m) k d"

definition has_id :: "pyval \<Rightarrow> bool" where
  "has_id study = truthy (study_field study ''identificationModule'' ''nctId'' (PStr []))"

fun snippet_text :: "pyval \<Rightarrow> pyval" where
  "snippet_text (PStr s) = PStr (if 200 < length s then take 200 s @ ''...'' else s)"
| "snippet_text v = v"

definition phase_text :: "pyval \<Rightarrow> pyval" where
  "phase_text phase_list =
     (if truthy phase_list
      then (case py_join '', '' phase_list of Some j \<Rightarrow> PStr j | None \<Rightarrow> PNone)
      else PStr ''Not Specified'')"

definition plain_study :: "pyval \<Rightarrow> bool" where
  "plain_study study =
     (is_dict study
      \<and> is_dict (lookup study ''protocolSection'' (PDict []))
      \<and> is_dict (study_module study ''identificationModule'')
      \<and> is_dict (study_module study ''statusModule'')
      \<and> is_dict (study_module study ''designModule'')
      \<and> is_dict (study_module study ''conditionsModule'')
      \<and> is_dict (study_module study ''descriptionModule'')
      \<and> (truthy (study_field study ''designModule'' ''phases'' (PList []))
           \<longrightarrow> py_join '', '' (study_field study ''designModule'' ''phases'' (PList [])) \<noteq> None)
      \<and> is_str (study_field study ''descriptionModule'' ''briefSummary'' (PStr []))
      \<and> (truthy (study_field study ''descriptionModule'' ''briefSummary'' (PStr []))
          \<or> truthy (study_field study ''descriptionModule'' ''detailedDescription'' (PStr []))))"

definition study_record :: "pyval \<Rightarrow> SearchResult" where
  "study_record study =
     (let brief = study_field study ''identificationModule'' ''briefTitle'' (PStr []);
          official = study_field study ''identificationModule'' ''officialTitle'' (PStr []);
          summ = study_field study ''descriptionModule'' ''briefSummary'' (PStr []);
          detailed = study_field study ''descriptionModule'' ''detailedDescription'' (PStr []);
          ident = study_field study ''identificationModule'' ''nctId'' (PStr [])
      in (SearchResult_new (if truthy brief then brief else official))
           \<lparr>link := PStr (''https://clinicaltrials.gov/ct2/show/'' @ py_str ident),
            snippet := snippet_text summ,
            abstract := (if truthy summ then summ else detailed),
            nct_id := ident,
            status := study_field study ''statusModule'' ''overallStatus'' (PStr []),
            study_type := study_field study ''designModule'' ''studyType'' (PStr []),
            phase := phase_text (study_field study ''designModule'' ''phases'' (PList [])),
            conditions := study_field study ''conditionsModule'' ''conditions'' (PList [])\<rparr>)"

section \<open>Concrete worlds and inputs for the examples\<close>

definition empty_soup :: soup where
  "empty_soup =
     \<lparr>select = (\<lambda>sel. []), find_all = (\<lambda>en. []), find_string = (\<lambda>t. None),
      find_th_string = (\<lambda>t. None), find_string_nct = None\<rparr>"

definition json_response :: "pyval \<Rightarrow> response" where
  "json_response v = \<lparr>status_code = 200, json = Some v, page_text = [], page = empty_soup\<rparr>"

definition html_response :: "string \<Rightarrow> soup \<Rightarrow> response" where
  "html_response t s = \<lparr>status_code = 200, json = None, page_text = t, page = s\<rparr>"

text \<open>The URL of the last request of a trace (the empty string if it ends otherwise).\<close>

definition last_url :: "event list \<Rightarrow> string" where
  "last_url tr = (case last tr of HttpGet r \<Rightarrow> url r | _ \<Rightarrow> [])"

text \<open>A world where no variable is set, every request fails and every service raises.\<close>

definition dead_world :: world where
  "dead_world =
     \<lparr>environ = (\<lambda>v. None), remote = (\<lambda>tr. None), arxiv_client = (\<lambda>tr. Raise),
      genai_start = (\<lambda>k m. Some (ServiceError ''no service'')),
      chat_service = (\<lambda>tr. Inl (ServiceError ''no service'')), trace = []\<rparr>"

text \<open>The key is set, but the generative service cannot be set up; and a world where
  it can, and every message sent raises.\<close>

definition key_world :: world where
  "key_world = dead_world\<lparr>environ := (\<lambda>v. if v = ''GOOGLE_API_KEY'' then Some ''k'' else None)\<rparr>"

definition chat_world :: world where
  "chat_world = key_world\<lparr>genai_start := (\<lambda>k m. None)\<rparr>"

definition dead_agent :: Agent where
  "dead_agent = \<lparr>name = ''Report_Agent'', agent_api_key = ''k'', model = None, chat = None\<rparr>"

definition live_agent :: Agent where
  "live_agent = \<lparr>name = ''Report_Agent'', agent_api_key = ''k'', model = Some ''gemini-pro'', chat = Some []\<rparr>"

text \<open>A registry record with a short abstract and no conditions.\<close>

definition short_trial :: SearchResult where
  "short_trial =
     (SearchResult_new (PStr ''Metformin in Type 2 Diabetes''))
       \<lparr>link := PStr ''https://clinicaltrials.gov/ct2/show/NCT00000001'',
        abstract := PStr ''A short abstract.'',
        nct_id := PStr ''NCT00000001'',
        status := PStr ''RECRUITING'',
        study_type := PStr ''INTERVENTIONAL'',
        phase := PStr ''PHASE2''\<rparr>"

text \<open>A study of the structured API with the given brief summary and detailed
  description, the record the loop builds from it, a summary of 201 characters, a world
  whose registry answers the search with the given studies and the single-study request
  with the given body (if any), and such a body with a summary and nothing else.\<close>

definition study_with_summary :: "string \<Rightarrow> string \<Rightarrow> pyval" where
  "study_with_summary s d =
     PDict [(''protocolSection'', PDict
       [(''identificationModule'', PDict [(''nctId'', PStr ''NCT00000001''),
                                          (''briefTitle'', PStr ''Metformin in Type 2 Diabetes'')]),
        (''conditionsModule'', PDict [(''conditions'', PList [PStr ''Diabetes''])]),
        (''descriptionModule'', PDict [(''briefSummary'', PStr s), (''detailedDescription'', PStr d)])])]"

definition tier1_record :: "string \<Rightarrow> string \<Rightarrow> SearchResult" where
  "tier1_record snip ab =
     (SearchResult_new (PStr ''Metformin in Type 2 Diabetes''))
       \<lparr>link := PStr ''https://clinicaltrials.gov/ct2/show/NCT00000001'',
        snippet := PStr snip,
        abstract := PStr ab,
        nct_id := PStr ''NCT00000001'',
        phase := PStr ''Not Specified'',
        conditions := PList [PStr ''Diabetes'']\<rparr>"

definition long_summary :: string where
  "long_summary = replicate 201 (CHR ''a'')"

definition tier1_world :: "pyval \<Rightarrow> pyval option \<Rightarrow> world" where
  "tier1_world studies details =
     dead_world\<lparr>remote := (\<lambda>tr.
        if last_url tr = ''https://clinicaltrials.gov/api/v2/studies''
          then Some (json_response (PDict [(''studies'', studies)]))
        else if last_url tr = ''https://clinicaltrials.gov/api/v2/studies/NCT00000001''
          then map_option json_response details
        else None)\<rparr>"

definition summary_only_details :: pyval where
  "summary_only_details =
     PDict [(''protocolSection'', PDict
       [(''descriptionModule'', PDict [(''briefSummary'', PStr ''Full summary.'')])])]"

definition detail_record :: SearchResult where
  "detail_record =
     (SearchResult_new (PStr []))
       \<lparr>link := PStr ''https://clinicaltrials.gov/ct2/show/NCT00000001'',
        nct_id := PStr ''NCT00000001'', abstract := PStr ''Full summary.'',
        conditions := PList [], interventions := PList []\<rparr>"

definition enriched_record :: SearchResult where
  "enriched_record =
     (tier1_record [] ''Full summary.'')\<lparr>conditions := PList [], interventions := PList []\<rparr>"

text \<open>A web search whose response has two items, whatever count was asked for; every
  other request gets a page with some text.\<close>

definition two_items :: pyval where
  "two_items =
     PDict [(''items'', PList
       [PDict [(''title'', PStr ''First''), (''link'', PStr ''http://a.example''), (''snippet'', PStr ''one'')],
        PDict [(''title'', PStr ''Second''), (''link'', PStr ''http://b.example''), (''snippet'', PStr ''two'')]])]"

definition google_world :: world where
  "google_world =
     dead_world\<lparr>remote := (\<lambda>tr.
        if last_url tr = ''https://www.googleapis.com/customsearch/v1'' then Some (json_response two_items)
        else Some (html_response ''Some page text'' empty_soup))\<rparr>"

definition google_tool :: SearchTool where
  "google_tool = \<lparr>api_key = Some ''key'', search_engine_id = Some ''cx''\<rparr>"

definition google_record :: "string \<Rightarrow> string \<Rightarrow> string \<Rightarrow> SearchResult" where
  "google_record t l s =
     (SearchResult_new (PStr t))\<lparr>link := PStr l, snippet := PStr s, body := PStr ''Some page text''\<rparr>"

text \<open>The registry's search page with three result links, a detail page where only
  the second candidate selector of the status matches, a world that serves them, an arXiv
  client that yields three entries, a web search whose only item has no snippet, and a
  study with an identifier and a brief summary and nothing else.\<close>

definition result_link :: "string \<Rightarrow> tag" where
  "result_link h = \<lparr>tag_name = ''a'', get_text = ''A study'', attrs = [(''href'', h)], select_li = []\<rparr>"

definition search_page :: soup where
  "search_page =
     empty_soup\<lparr>select := (\<lambda>sel.
        if sel = ''.ct-search-result a.ct-search-result__title-link''
        then [result_link ''/study/NCT00000001'', result_link ''/study/NCT00000002'',
              result_link ''/study/NCT00000003'']
        else [])\<rparr>"

definition status_label_page :: soup where
  "status_label_page =
     empty_soup\<lparr>select := (\<lambda>sel.
        if sel = ''.statusLabel''
        then [\<lparr>tag_name = ''span'', get_text = '' Recruiting '', attrs = [], select_li = []\<rparr>]
        else [])\<rparr>"

definition scrape_world :: world where
  "scrape_world =
     dead_world\<lparr>remote := (\<lambda>tr.
        if last_url tr = ''https://clinicaltrials.gov/search'' then Some (html_response [] search_page)
        else Some (html_response [] status_label_page))\<rparr>"




definition no_snippet_item :: pyval where
  "no_snippet_item = PDict [(''title'', PStr ''First''), (''link'', PStr ''http://a.example'')]"

definition no_snippet_world :: world where
  "no_snippet_world =
     dead_world\<lparr>remote := (\<lambda>tr.
        if last_url tr = ''https://www.googleapis.com/customsearch/v1''
        then Some (json_response (PDict [(''items'', PList [no_snippet_item])]))
        else None)\<rparr>"

definition bare_study :: pyval where
  "bare_study =
     PDict [(''protocolSection'', PDict
       [(''identificationModule'', PDict [(''nctId'', PStr ''NCT00000001'')]),
        (''descriptionModule'', PDict [(''briefSummary'', PStr ''Short.'')])])]"

text \<open>A study with a title and a brief summary, and no identifier.\<close>

definition no_id_study :: pyval where
  "no_id_study =
     PDict [(''protocolSection'', PDict
       [(''identificationModule'', PDict [(''briefTitle'', PStr ''No identifier'')]),
        (''descriptionModule'', PDict [(''briefSummary'', PStr ''Short.'')])])]"

text \<open>The element the page \<open>status_label_page\<close> has for the second status selector.\<close>

definition status_label :: tag where
  "status_label = \<lparr>tag_name = ''span'', get_text = '' Recruiting '', attrs = [], select_li = []\<rparr>"

section \<open>Properties\<close>

subsection \<open>Missing credentials of the web search\<close>

text \<open>
  Claim C8. For every query and result count, when the API key or the search-engine id
  is absent (not set, or empty), \<open>google_search\<close> returns the empty list and leaves the
  world as it was: the trace has no new request, so no network call was made.
\<close>

theorem google_search_missing_credential:
  assumes "\<not> env_truthy (api_key self) \<or> \<not> env_truthy (search_engine_id self)"
  shows "google_search self query num_results max_chars w = (Some [], w)"
  using assms by (auto simp: google_search_def)

theorem google_search_missing_credential_witness:
  "\<not> env_truthy (api_key \<lparr>api_key = None, search_engine_id = Some ''cx''\<rparr>)
   \<and> google_search \<lparr>api_key = None, search_engine_id = Some ''cx''\<rparr> ''diabetes'' 2 500 dead_world
       = (Some [], dead_world)
   \<and> trace (snd (google_search \<lparr>api_key = None, search_engine_id = Some ''cx''\<rparr> ''diabetes'' 2 500 dead_world))
       = []"
proof -
  have h: "\<not> env_truthy (api_key \<lparr>api_key = None, search_engine_id = Some ''cx''\<rparr>)
           \<or> \<not> env_truthy (search_engine_id \<lparr>api_key = None, search_engine_id = Some ''cx''\<rparr>)"
    by simp
  show ?thesis
    using google_search_missing_credential [OF h, of "''diabetes''" 2 500 dead_world]
    by (simp add: dead_world_def)
qed

subsection \<open>The agent never lets an error out of \<open>process\<close>\<close>

text \<open>
  Claim C9, as the program has it. \<open>process\<close> always returns a text. An agent without
  chat (setting up the service raised in the constructor) answers every message with
  the fixed text \<open>Error: Agent not properly initialized\<close> and does not call the
  service. When the service raises, the text is \<open>Error processing message: \<close> followed
  by the message of the exception. A missing credential is not such a case: the
  constructor then raises ValueError and there is no agent; with the credential set,
  the constructor returns an agent, whose chat is missing exactly when setting up the
  service raised.
\<close>

theorem agent_process_fail_soft:
  "(\<exists>t. fst (process a msg w) = Inr t)
   \<and> (chat a = None \<longrightarrow> process a msg w = (Inr ''Error: Agent not properly initialized'', w))
   \<and> (chat a \<noteq> None \<longrightarrow> chat_service w (trace w @ [SendMessage msg]) = Inl e \<longrightarrow>
        fst (process a msg w) = Inr (''Error processing message: '' @ exn_str e))
   \<and> (\<not> env_truthy (environ v ''GOOGLE_API_KEY'') \<longrightarrow>
        Agent_init nm mdl v = Inl (ValueError ''GOOGLE_API_KEY environment variable not set''))
   \<and> (env_truthy (environ v ''GOOGLE_API_KEY'') \<longrightarrow>
        (\<exists>b. Agent_init nm mdl v = Inr b
              \<and> (chat b = None \<longleftrightarrow> genai_start v (the (environ v ''GOOGLE_API_KEY'')) mdl \<noteq> None)))"
proof -
  have p1: "\<exists>t. fst (process a msg w) = Inr t"
    by (auto simp: process_def Let_def split: option.splits sum.splits)
  have p2: "chat a = None \<longrightarrow> process a msg w = (Inr ''Error: Agent not properly initialized'', w)"
    by (simp add: process_def)
  have p3: "chat a \<noteq> None \<longrightarrow> chat_service w (trace w @ [SendMessage msg]) = Inl e \<longrightarrow>
        fst (process a msg w) = Inr (''Error processing message: '' @ exn_str e)"
    by (auto simp: process_def Let_def)
  have p4: "\<not> env_truthy (environ v ''GOOGLE_API_KEY'') \<longrightarrow>
        Agent_init nm mdl v = Inl (ValueError ''GOOGLE_API_KEY environment variable not set'')"
    by (simp add: Agent_init_def Let_def)
  have p5: "env_truthy (environ v ''GOOGLE_API_KEY'') \<longrightarrow>
        (\<exists>b. Agent_init nm mdl v = Inr b
              \<and> (chat b = None \<longleftrightarrow> genai_start v (the (environ v ''GOOGLE_API_KEY'')) mdl \<noteq> None))"
    by (auto simp: Agent_init_def Let_def split: option.splits)
  from p1 p2 p3 p4 p5 show ?thesis by blast
qed

theorem agent_process_fail_soft_witness:
  "process dead_agent ''hello'' chat_world = (Inr ''Error: Agent not properly initialized'', chat_world)
   \<and> fst (process live_agent ''hello'' chat_world) = Inr ''Error processing message: no service''
   \<and> Agent_init ''Report_Agent'' ''gemini-pro'' dead_world
       = Inl (ValueError ''GOOGLE_API_KEY environment variable not set'')
   \<and> Agent_init ''Report_Agent'' ''gemini-pro'' key_world = Inr dead_agent
   \<and> Agent_init ''Report_Agent'' ''gemini-pro'' chat_world = Inr live_agent"
proof -
  have c1: "chat dead_agent = None" by (simp add: dead_agent_def)
  have c2: "chat live_agent \<noteq> None" by (simp add: live_agent_def)
  have c3: "chat_service chat_world (trace chat_world @ [SendMessage ''hello'']) = Inl (ServiceError ''no service'')"
    by (simp add: chat_world_def key_world_def dead_world_def)
  have c4: "\<not> env_truthy (environ dead_world ''GOOGLE_API_KEY'')" by (simp add: dead_world_def)
  have c5: "env_truthy (environ key_world ''GOOGLE_API_KEY'')" by (simp add: key_world_def dead_world_def)
  have c6: "env_truthy (environ chat_world ''GOOGLE_API_KEY'')"
    by (simp add: chat_world_def key_world_def dead_world_def)
  note t1 = agent_process_fail_soft [where a = dead_agent and msg = "''hello''" and w = chat_world
      and e = "ServiceError ''no service''" and v = dead_world and nm = "''Report_Agent''" and mdl = "''gemini-pro''"]
  note t2 = agent_process_fail_soft [where a = live_agent and msg = "''hello''" and w = chat_world
      and e = "ServiceError ''no service''" and v = key_world and nm = "''Report_Agent''" and mdl = "''gemini-pro''"]
  note t3 = agent_process_fail_soft [where a = live_agent and msg = "''hello''" and w = chat_world
      and e = "ServiceError ''no service''" and v = chat_world and nm = "''Report_Agent''" and mdl = "''gemini-pro''"]
  have a1: "process dead_agent ''hello'' chat_world = (Inr ''Error: Agent not properly initialized'', chat_world)"
    using t1 c1 by blast
  have a2: "fst (process live_agent ''hello'' chat_world) = Inr ''Error processing message: no service''"
    using t2 c2 c3 by simp
  have a3: "Agent_init ''Report_Agent'' ''gemini-pro'' dead_world
       = Inl (ValueError ''GOOGLE_API_KEY environment variable not set'')"
    using t1 c4 by blast
  have a4: "Agent_init ''Report_Agent'' ''gemini-pro'' key_world = Inr dead_agent"
    using t2 c5 by (simp add: Agent_init_def key_world_def dead_world_def dead_agent_def)
  have a5: "Agent_init ''Report_Agent'' ''gemini-pro'' chat_world = Inr live_agent"
    using t3 c6 by (simp add: Agent_init_def chat_world_def key_world_def dead_world_def live_agent_def)
  from a1 a2 a3 a4 a5 show ?thesis by blast
qed

text \<open>The claim as written fails on its own example: without the credential the
  constructor raises, so no agent exists that could answer with the fixed text.\<close>

theorem agent_missing_credential_counterexample:
  "Agent_init ''Report_Agent'' ''gemini-pro'' dead_world
     = Inl (ValueError ''GOOGLE_API_KEY environment variable not set'')
   \<and> MultiAgentSystem_init dead_world
     = Inl (ValueError ''GOOGLE_API_KEY environment variable not set'')"
  by (simp add: Agent_init_def MultiAgentSystem_init_def dead_world_def)

subsection \<open>The summary line of the registry context\<close>

text \<open>A context is its header followed by the texts of the records, in their order.\<close>

lemma context_loop_concat:
  "context_loop f rs ctx
     = (if \<forall>r\<in>set rs. f r \<noteq> None then Some (ctx @ concat (map (\<lambda>r. the (f r)) rs)) else None)"
  by (induction rs arbitrary: ctx) (auto split: option.splits)

text \<open>
  Claim C7, as the program has it. The summary line of a record is \<open>Summary: \<close>, the
  first 300 characters of the abstract and then the ellipsis marker, whatever the
  length of the abstract: the marker is also appended to an abstract of 300 characters
  or fewer. The text added to the context for the record holds this line between the
  line of the conditions and the line of the URL, and the registry context is its
  header followed by these texts, one for each record.
\<close>

theorem registry_summary_line:
  "summary_line (PStr a) = Some (''Summary: '' @ take 300 a @ ''...'' @ nl)
   \<and> (abstract result = PStr a \<longrightarrow>
        trial_context result =
          map_option
            (\<lambda>cl. nl @ ''Title: '' @ py_str (title result) @ nl
                  @ ''NCT ID: '' @ py_str (nct_id result) @ nl
                  @ ''Status: '' @ py_str (status result) @ nl
                  @ ''Study Type: '' @ py_str (study_type result) @ nl
                  @ ''Phase: '' @ py_str (phase result) @ nl
                  @ cl
                  @ ''Summary: '' @ take 300 a @ ''...'' @ nl
                  @ ''URL: '' @ py_str (link result) @ nl)
            (conditions_line (conditions result)))
   \<and> (rs \<noteq> [] \<longrightarrow> (\<forall>r\<in>set rs. trial_context r \<noteq> None) \<longrightarrow>
        clinical_trials_context topic rs
          = Some (nl @ ''Based on ClinicalTrials.gov search for '' @ [CHR 0x27] @ topic @ [CHR 0x27]
                  @ '', here are the clinical trials:'' @ nl
                  @ concat (map (\<lambda>r. the (trial_context r)) rs)))"
proof -
  have s: "summary_line (PStr a) = Some (''Summary: '' @ take 300 a @ ''...'' @ nl)"
    by (simp add: summary_line_def py_take_def)
  have t: "abstract result = PStr a \<longrightarrow>
        trial_context result =
          map_option
            (\<lambda>cl. nl @ ''Title: '' @ py_str (title result) @ nl
                  @ ''NCT ID: '' @ py_str (nct_id result) @ nl
                  @ ''Status: '' @ py_str (status result) @ nl
                  @ ''Study Type: '' @ py_str (study_type result) @ nl
                  @ ''Phase: '' @ py_str (phase result) @ nl
                  @ cl
                  @ ''Summary: '' @ take 300 a @ ''...'' @ nl
                  @ ''URL: '' @ py_str (link result) @ nl)
            (conditions_line (conditions result))"
    by (cases "conditions_line (conditions result)") (simp_all add: trial_context_def s)
  have c: "rs \<noteq> [] \<longrightarrow> (\<forall>r\<in>set rs. trial_context r \<noteq> None) \<longrightarrow>
        clinical_trials_context topic rs
          = Some (nl @ ''Based on ClinicalTrials.gov search for '' @ [CHR 0x27] @ topic @ [CHR 0x27]
                  @ '', here are the clinical trials:'' @ nl
                  @ concat (map (\<lambda>r. the (trial_context r)) rs))"
    by (simp add: clinical_trials_context_def context_loop_concat Let_def)
  from s t c show ?thesis by blast
qed

theorem registry_summary_line_witness:
  "summary_line (PStr ''A short abstract.'') = Some (''Summary: A short abstract....'' @ nl)
   \<and> trial_context short_trial =
       Some (nl @ ''Title: Metformin in Type 2 Diabetes'' @ nl
             @ ''NCT ID: NCT00000001'' @ nl
             @ ''Status: RECRUITING'' @ nl
             @ ''Study Type: INTERVENTIONAL'' @ nl
             @ ''Phase: PHASE2'' @ nl
             @ ''Conditions: Not specified'' @ nl
             @ ''Summary: A short abstract....'' @ nl
             @ ''URL: https://clinicaltrials.gov/ct2/show/NCT00000001'' @ nl)
   \<and> clinical_trials_context ''diabetes'' [short_trial] =
       Some (nl @ ''Based on ClinicalTrials.gov search for '' @ [CHR 0x27] @ ''diabetes'' @ [CHR 0x27]
             @ '', here are the clinical trials:'' @ nl
             @ nl @ ''Title: Metformin in Type 2 Diabetes'' @ nl
             @ ''NCT ID: NCT00000001'' @ nl
             @ ''Status: RECRUITING'' @ nl
             @ ''Study Type: INTERVENTIONAL'' @ nl
             @ ''Phase: PHASE2'' @ nl
             @ ''Conditions: Not specified'' @ nl
             @ ''Summary: A short abstract....'' @ nl
             @ ''URL: https://clinicaltrials.gov/ct2/show/NCT00000001'' @ nl)"
proof -
  have a: "abstract short_trial = PStr ''A short abstract.''"
    by (simp add: short_trial_def)
  have c: "conditions_line (conditions short_trial) = Some (''Conditions: Not specified'' @ nl)"
    by (simp add: short_trial_def SearchResult_new_def conditions_line_def)
  note th = registry_summary_line [where a = "''A short abstract.''" and result = short_trial
      and rs = "[short_trial]" and topic = "''diabetes''"]
  have s: "summary_line (PStr ''A short abstract.'') = Some (''Summary: A short abstract....'' @ nl)"
    using th by simp
  have t: "trial_context short_trial =
       Some (nl @ ''Title: Metformin in Type 2 Diabetes'' @ nl
             @ ''NCT ID: NCT00000001'' @ nl
             @ ''Status: RECRUITING'' @ nl
             @ ''Study Type: INTERVENTIONAL'' @ nl
             @ ''Phase: PHASE2'' @ nl
             @ ''Conditions: Not specified'' @ nl
             @ ''Summary: A short abstract....'' @ nl
             @ ''URL: https://clinicaltrials.gov/ct2/show/NCT00000001'' @ nl)"
    using th a c by (simp add: short_trial_def SearchResult_new_def)
  have n: "[short_trial] \<noteq> []" and al: "\<forall>r\<in>set [short_trial]. trial_context r \<noteq> None"
    using t by simp_all
  have "clinical_trials_context ''diabetes'' [short_trial]
          = Some (nl @ ''Based on ClinicalTrials.gov search for '' @ [CHR 0x27] @ ''diabetes'' @ [CHR 0x27]
                  @ '', here are the clinical trials:'' @ nl
                  @ concat (map (\<lambda>r. the (trial_context r)) [short_trial]))"
    using th n al by blast
  with s t show ?thesis by simp
qed

text \<open>The claim as written fails for a short abstract: it does not appear unmodified,
  the line ends with the marker although the abstract has 17 characters.\<close>

theorem registry_summary_ellipsis_counterexample:
  "length ''A short abstract.'' = 17
   \<and> summary_line (abstract short_trial) = Some (''Summary: A short abstract....'' @ nl)
   \<and> summary_line (abstract short_trial) \<noteq> Some (''Summary: A short abstract.'' @ nl)"
  by (simp add: short_trial_def summary_line_def py_take_def nl_def)

subsection \<open>The records of the structured registry API\<close>

lemmas tier1_eval =
  clinicaltrials_search_beta_api_def beta_api_try_def requests_get_def tier1_world_def
  dead_world_def last_url_def beta_api_request_def json_response_def response_studies_def
  beta_api_enrich_def time_sleep_def beta_api_study_def study_with_summary_def snippet_of_def
  SearchResult_new_def py_take_def get_clinical_trial_details_api_def details_api_request_def
  details_of_study_def enrich_def tier1_record_def summary_only_details_def

lemma beta_api_study_Append:
  assumes "beta_api_study study = Some (Append r summ dd)"
  shows "brief_summary study = Some summ"
    and "snippet_of summ = Some (snippet r)"
    and "abstract r = (if truthy summ then summ else dd)"
    and "authors r = PNone" and "interventions r = PNone" and "locations r = PNone"
  using assms
  by (auto simp: beta_api_study_def brief_summary_def SearchResult_new_def split: Option.bind_splits if_splits)

lemma enrich_cases:
  assumes "fst (beta_api_enrich r summ dd w) = Some r'"
  shows "r' = r \<or> (\<not> truthy summ \<and> \<not> truthy dd
           \<and> (\<exists>d. fst (get_clinical_trial_details_api (nct_id r) w) = Some (Some d) \<and> r' = enrich r d))"
  using assms
  by (auto simp: beta_api_enrich_def split: if_splits option.splits prod.splits)

lemma snippet_of_str:
  "snippet_of (PStr s) = Some (PStr (if 200 < length s then take 200 s @ ''...'' else s))"
  by (simp add: snippet_of_def py_take_def)

lemma py_get_Some_lookup: "py_get x k d = Some v \<Longrightarrow> v = lookup x k d"
  by (cases x) auto

lemma beta_api_study_texts:
  assumes "beta_api_study study = Some (Append r summ dd)"
  shows "summ = study_field study ''descriptionModule'' ''briefSummary'' (PStr [])"
    and "dd = study_field study ''descriptionModule'' ''detailedDescription'' (PStr [])"
    and "conditions r = study_field study ''conditionsModule'' ''conditions'' (PList [])"
  using assms
  by (auto simp: beta_api_study_def study_field_def study_module_def
           split: Option.bind_splits if_splits dest!: py_get_Some_lookup)


text \<open>On plain studies the loop computes the closed form: it returns the records of
  the studies that have an identifier, in their order.\<close>

lemma py_get_dict: "is_dict x \<Longrightarrow> py_get x k d = Some (lookup x k d)"
  by (cases x) simp_all

lemma snippet_of_is_str: "is_str v \<Longrightarrow> snippet_of v = Some (snippet_text v)"
  by (cases v) (simp_all add: snippet_of_def py_take_def)

lemma plain_step:
  assumes "plain_study study"
  shows "beta_api_study study =
           Some (if has_id study
                 then Append (study_record study)
                        (study_field study ''descriptionModule'' ''briefSummary'' (PStr []))
                        (study_field study ''descriptionModule'' ''detailedDescription'' (PStr []))
                 else Continue)"
proof -
  from assms have d: "is_dict study" "is_dict (lookup study ''protocolSection'' (PDict []))"
    "is_dict (study_module study ''identificationModule'')"
    "is_dict (study_module study ''statusModule'')"
    "is_dict (study_module study ''designModule'')"
    "is_dict (study_module study ''conditionsModule'')"
    "is_dict (study_module study ''descriptionModule'')"
    and j: "truthy (study_field study ''designModule'' ''phases'' (PList []))
           \<longrightarrow> py_join '', '' (study_field study ''designModule'' ''phases'' (PList [])) \<noteq> None"
    and s: "is_str (study_field study ''descriptionModule'' ''briefSummary'' (PStr []))"
    by (simp_all add: plain_study_def)
  note g = py_get_dict [OF d(1)] py_get_dict [OF d(2)]
    py_get_dict [OF d(3) [unfolded study_module_def]]
    py_get_dict [OF d(4) [unfolded study_module_def]]
    py_get_dict [OF d(5) [unfolded study_module_def]]
    py_get_dict [OF d(6) [unfolded study_module_def]]
    py_get_dict [OF d(7) [unfolded study_module_def]]
  show ?thesis
    using j snippet_of_is_str [OF s]
    by (auto simp: beta_api_study_def g has_id_def study_field_def study_module_def
                   study_record_def phase_text_def Let_def
             split: option.splits)
qed


lemma enrich_skipped:
  "truthy summ \<or> truthy dd \<Longrightarrow> beta_api_enrich r summ dd w = (Some r, w)"
  by (auto simp: beta_api_enrich_def)

lemma plain_loop:
  assumes "\<forall>study\<in>set ss. plain_study study"
  shows "fst (beta_api_loop ss acc w) = Some (acc @ map study_record (filter has_id ss))"
  using assms
proof (induction ss arbitrary: acc w)
  case Nil
  show ?case by simp
next
  case (Cons study ss)
  from Cons.prems have p: "plain_study study" and rest: "\<forall>study\<in>set ss. plain_study study"
    by simp_all
  from p have t: "truthy (study_field study ''descriptionModule'' ''briefSummary'' (PStr []))
          \<or> truthy (study_field study ''descriptionModule'' ''detailedDescription'' (PStr []))"
    by (simp add: plain_study_def)
  show ?case
  proof (cases "has_id study")
    case True
    with plain_step [OF p] enrich_skipped [OF t] Cons.IH [OF rest]
    show ?thesis by simp
  next
    case False
    with plain_step [OF p] Cons.IH [OF rest]
    show ?thesis by simp
  qed
qed

lemma plain_fetch:
  assumes "answer w (beta_api_request q n) = Some resp" and "status_code resp = 200"
    and "response_studies resp = Some (PList ss)" and "\<forall>study\<in>set ss. plain_study study"
  shows "fst (clinicaltrials_search_beta_api q n w) = Some (map study_record (filter has_id ss))"
proof (cases "ss = []")
  case True
  with assms(1,2,3) show ?thesis
    by (simp add: clinicaltrials_search_beta_api_def beta_api_try_def requests_get_def Let_def answer_def)
next
  case False
  have "fst (beta_api_loop ss [] (w\<lparr>trace := trace w @ [HttpGet (beta_api_request q n)]\<rparr>))
          = Some (map study_record (filter has_id ss))"
    using plain_loop [OF assms(4), of "[]"] by simp
  with False assms(1,2,3) show ?thesis
    by (auto simp: clinicaltrials_search_beta_api_def beta_api_try_def requests_get_def Let_def answer_def
             split: option.splits prod.splits)
qed

text \<open>Every record of the list the fetch returns is built by one turn of the loop:
  the step on a study of the response, then the enrichment.\<close>

lemma beta_api_loop_provenance:
  assumes "beta_api_loop ss acc w = (Some rs, w')" and "r \<in> set rs"
  shows "r \<in> set acc \<or> (\<exists>study\<in>set ss. \<exists>r0 summ dd wa.
           beta_api_study study = Some (Append r0 summ dd)
           \<and> fst (beta_api_enrich r0 summ dd wa) = Some r)"
  using assms
proof (induction ss arbitrary: acc w)
  case Nil
  then show ?case by simp
next
  case (Cons study ss)
  show ?case
  proof (cases "beta_api_study study")
    case None
    with Cons.prems show ?thesis by simp
  next
    case (Some st)
    show ?thesis
    proof (cases st)
      case Continue
      with Some Cons.prems have "beta_api_loop ss acc w = (Some rs, w')" by simp
      from Cons.IH [OF this Cons.prems(2)] show ?thesis by auto
    next
      case (Append r0 summ dd)
      obtain res w1 where e: "beta_api_enrich r0 summ dd w = (res, w1)"
        by (cases "beta_api_enrich r0 summ dd w")
      show ?thesis
      proof (cases res)
        case None
        with Some Append e Cons.prems show ?thesis by simp
      next
        case (Some r1)
        with \<open>beta_api_study study = Some st\<close> Append e Cons.prems
        have "beta_api_loop ss (acc @ [r1]) (time_sleep 2000 w1) = (Some rs, w')" by simp
        from Cons.IH [OF this Cons.prems(2)]
        have "r \<in> set acc \<or> r = r1 \<or> (\<exists>study\<in>set ss. \<exists>r0 summ dd wa.
           beta_api_study study = Some (Append r0 summ dd)
           \<and> fst (beta_api_enrich r0 summ dd wa) = Some r)"
          by auto
        moreover have "fst (beta_api_enrich r0 summ dd w) = Some r1"
          using e Some by simp
        ultimately show ?thesis
          using \<open>beta_api_study study = Some st\<close> Append by auto
      qed
    qed
  qed
qed

lemma beta_api_provenance:
  assumes "fst (clinicaltrials_search_beta_api query max_results w) = Some rs" and "r \<in> set rs"
  shows "\<exists>resp studies ss.
           remote w (trace w @ [HttpGet (beta_api_request query max_results)]) = Some resp
           \<and> response_studies resp = Some studies \<and> py_iter studies = Some ss
           \<and> (\<exists>study\<in>set ss. \<exists>r0 summ dd wa.
                 beta_api_study study = Some (Append r0 summ dd)
                 \<and> fst (beta_api_enrich r0 summ dd wa) = Some r)"
  using assms beta_api_loop_provenance [where acc = "[]" and r = r and rs = rs]
  by (auto simp: clinicaltrials_search_beta_api_def beta_api_try_def requests_get_def Let_def
           split: option.splits prod.splits if_splits)

text \<open>
  Claim C6, as the program has it. For a record the fetch builds from a study whose
  brief summary is the text \<open>s\<close>: when \<open>s\<close> has more than 200 characters the snippet is
  its first 200 characters and the ellipsis marker, 203 characters in all; when \<open>s\<close> is
  not empty and has at most 200 characters the snippet is \<open>s\<close> and equals the abstract;
  when \<open>s\<close> is empty the snippet is empty and the abstract is not bound to it: it is
  the detailed description of the study when there is one, and otherwise the abstract of
  the detail record when the detail fetch returned a record (what the enrichment
  assigned), or the empty detailed description when it did not.
\<close>

theorem tier1_snippet:
  assumes "beta_api_study study = Some (Append r0 (PStr s) dd)"
    and "fst (beta_api_enrich r0 (PStr s) dd w) = Some r"
  shows "brief_summary study = Some (PStr s)
    \<and> dd = study_field study ''descriptionModule'' ''detailedDescription'' (PStr [])
    \<and> (200 < length s \<longrightarrow>
          snippet r = PStr (take 200 s @ ''...'') \<and> length (take 200 s @ ''...'') = 203
          \<and> abstract r = PStr s)
    \<and> (0 < length s \<and> length s \<le> 200 \<longrightarrow> snippet r = PStr s \<and> abstract r = PStr s)
    \<and> (s = [] \<longrightarrow>
          snippet r = PStr []
          \<and> abstract r =
              (if truthy dd then dd
               else (case fst (get_clinical_trial_details_api (nct_id r0) w) of
                       Some (Some d) \<Rightarrow> abstract d
                     | _ \<Rightarrow> dd)))"
proof -
  note b = beta_api_study_Append [OF assms(1)]
  note t = beta_api_study_texts [OF assms(1)]
  have sn0: "snippet r0 = PStr (if 200 < length s then take 200 s @ ''...'' else s)"
    using b(2) by (simp add: snippet_of_str)
  have ab0: "abstract r0 = (if s \<noteq> [] then PStr s else dd)"
    using b(3) by simp
  from enrich_cases [OF assms(2)]
  have sn: "snippet r = snippet r0" and ab: "s \<noteq> [] \<longrightarrow> abstract r = abstract r0"
    by (auto simp: enrich_def)
  have ae: "s = [] \<longrightarrow> abstract r =
              (if truthy dd then dd
               else (case fst (get_clinical_trial_details_api (nct_id r0) w) of
                       Some (Some d) \<Rightarrow> abstract d
                     | _ \<Rightarrow> dd))"
    using assms(2) ab0
    by (auto simp: beta_api_enrich_def enrich_def split: if_splits option.splits prod.splits)
  show ?thesis
    using b(1) t(2) sn0 ab0 sn ab ae by auto
qed


theorem tier1_snippet_witness:
  "snippet (tier1_record (replicate 200 (CHR ''a'') @ ''...'') long_summary) = PStr (take 200 long_summary @ ''...'')
   \<and> length long_summary = 201
   \<and> length (take 200 long_summary @ ''...'') = 203
   \<and> abstract (tier1_record (replicate 200 (CHR ''a'') @ ''...'') long_summary) = PStr long_summary
   \<and> snippet (tier1_record ''Short.'' ''Short.'') = abstract (tier1_record ''Short.'' ''Short.'')
   \<and> snippet (tier1_record [] ''Detailed.'') = PStr []
   \<and> abstract (tier1_record [] ''Detailed.'') = PStr ''Detailed.''
   \<and> snippet enriched_record = PStr []
   \<and> abstract enriched_record = PStr ''Full summary.''"
proof -
  have l1: "beta_api_study (study_with_summary long_summary [])
   = Some (Append (tier1_record (replicate 200 (CHR ''a'') @ ''...'') long_summary) (PStr long_summary) (PStr []))"
    by (simp add: tier1_eval long_summary_def)
  have l2: "fst (beta_api_enrich (tier1_record (replicate 200 (CHR ''a'') @ ''...'') long_summary) (PStr long_summary) (PStr []) dead_world)
     = Some (tier1_record (replicate 200 (CHR ''a'') @ ''...'') long_summary)"
    by (simp add: beta_api_enrich_def long_summary_def)
  have s1: "beta_api_study (study_with_summary ''Short.'' [])
   = Some (Append (tier1_record ''Short.'' ''Short.'') (PStr ''Short.'') (PStr []))"
    by (simp add: tier1_eval)
  have s2: "fst (beta_api_enrich (tier1_record ''Short.'' ''Short.'') (PStr ''Short.'') (PStr []) dead_world)
     = Some (tier1_record ''Short.'' ''Short.'')"
    by (simp add: beta_api_enrich_def)
  have e1: "beta_api_study (study_with_summary [] ''Detailed.'')
   = Some (Append (tier1_record [] ''Detailed.'') (PStr []) (PStr ''Detailed.''))"
    by (simp add: tier1_eval)
  have e2: "fst (beta_api_enrich (tier1_record [] ''Detailed.'') (PStr []) (PStr ''Detailed.'') dead_world)
     = Some (tier1_record [] ''Detailed.'')"
    by (simp add: beta_api_enrich_def)
  have f1: "beta_api_study (study_with_summary [] [])
     = Some (Append (tier1_record [] []) (PStr []) (PStr []))"
    by (simp add: tier1_eval)
  have f2: "fst (beta_api_enrich (tier1_record [] []) (PStr []) (PStr [])
                 (tier1_world (PList [study_with_summary [] []]) (Some summary_only_details)))
     = Some enriched_record"
    by (simp add: tier1_eval enriched_record_def)
  have f3: "fst (get_clinical_trial_details_api (nct_id (tier1_record [] []))
                  (tier1_world (PList [study_with_summary [] []]) (Some summary_only_details)))
     = Some (Some ((SearchResult_new (PStr []))
                     \<lparr>link := PStr ''https://clinicaltrials.gov/ct2/show/NCT00000001'',
                      nct_id := PStr ''NCT00000001'', abstract := PStr ''Full summary.'',
                      conditions := PList [], interventions := PList []\<rparr>))"
    by (simp add: tier1_eval)
  have n: "length long_summary = 201" by (simp add: long_summary_def)
  have c1: "snippet (tier1_record (replicate 200 (CHR ''a'') @ ''...'') long_summary) = PStr (take 200 long_summary @ ''...'')
   \<and> length (take 200 long_summary @ ''...'') = 203
   \<and> abstract (tier1_record (replicate 200 (CHR ''a'') @ ''...'') long_summary) = PStr long_summary"
    using tier1_snippet [OF l1 l2] n by simp
  have c2: "snippet (tier1_record ''Short.'' ''Short.'') = abstract (tier1_record ''Short.'' ''Short.'')"
    using tier1_snippet [OF s1 s2] by simp
  have c3: "snippet (tier1_record [] ''Detailed.'') = PStr []
   \<and> abstract (tier1_record [] ''Detailed.'') = PStr ''Detailed.''"
    using tier1_snippet [OF e1 e2] by simp
  have c4: "snippet enriched_record = PStr [] \<and> abstract enriched_record = PStr ''Full summary.''"
    using tier1_snippet [OF f1 f2] f3 by simp
  from c1 c2 c3 c4 n show ?thesis by simp
qed

text \<open>The claim as written fails for an empty brief summary beside a detailed
  description: the summary has at most 200 characters, the snippet is empty and the
  abstract is the detailed description.\<close>

theorem tier1_snippet_counterexample:
  "map_option (map snippet)
     (fst (clinicaltrials_search_beta_api ''diabetes'' 2
             (tier1_world (PList [study_with_summary [] ''Detailed.'']) None)))
     = Some [PStr []]
   \<and> map_option (map abstract)
     (fst (clinicaltrials_search_beta_api ''diabetes'' 2
             (tier1_world (PList [study_with_summary [] ''Detailed.'']) None)))
     = Some [PStr ''Detailed.'']"
  by (simp add: tier1_eval)


lemma details_of_study_conditions:
  assumes "details_of_study n detail = Some d"
  shows "conditions d = study_field detail ''conditionsModule'' ''conditions'' (PList [])"
    and "abstract d =
          (if truthy (study_field detail ''descriptionModule'' ''briefSummary'' (PStr []))
           then study_field detail ''descriptionModule'' ''briefSummary'' (PStr [])
           else study_field detail ''descriptionModule'' ''detailedDescription'' (PStr []))"
  using assms
  by (auto simp: details_of_study_def study_field_def study_module_def SearchResult_new_def
           split: Option.bind_splits dest!: py_get_Some_lookup)

lemma details_fetch:
  assumes "prefix ''NCT'' i" and "answer w (details_api_request (PStr i)) = Some resp"
    and "status_code resp = 200" and "json resp = Some detail"
  shows "fst (get_clinical_trial_details_api (PStr i) w) = Some (details_of_study (PStr i) detail)"
proof -
  from assms(1) have "i \<noteq> []" by auto
  with assms show ?thesis
    by (simp add: get_clinical_trial_details_api_def requests_get_def answer_def Let_def)
qed

text \<open>
  Claim C3, as the program has it. The enrichment runs when neither summary text of the
  study is there. When the detail fetch then returns a record, the abstract, the
  conditions and the interventions of that record are assigned to the record of the
  study; when it returns nothing the record stays as it was. The abstract and the
  interventions that are replaced were empty. The conditions are assigned without a
  look at what the record had: the record had the conditions of the study in the search
  response, and gets those of the detail response, the empty list when that response
  has none. No other field changes.
\<close>

theorem enrichment_frame:
  assumes "beta_api_study study = Some (Append r summ dd)"
  shows "fst (beta_api_enrich r summ dd w) =
           (if truthy summ \<or> truthy dd then Some r
            else (case fst (get_clinical_trial_details_api (nct_id r) w) of
                    None \<Rightarrow> None
                  | Some None \<Rightarrow> Some r
                  | Some (Some d) \<Rightarrow>
                      Some (r\<lparr>abstract := abstract d, conditions := conditions d,
                              interventions := interventions d\<rparr>)))
    \<and> (\<not> truthy summ \<and> \<not> truthy dd \<longrightarrow> \<not> truthy (abstract r) \<and> interventions r = PNone)
    \<and> conditions r = study_field study ''conditionsModule'' ''conditions'' (PList [])
    \<and> (fst (beta_api_enrich r summ dd w) = Some r' \<longrightarrow>
         title r' = title r \<and> link r' = link r \<and> snippet r' = snippet r \<and> body r' = body r
         \<and> authors r' = authors r \<and> published r' = published r \<and> pdf_url r' = pdf_url r
         \<and> arxiv_url r' = arxiv_url r \<and> nct_id r' = nct_id r \<and> status r' = status r
         \<and> study_type r' = study_type r \<and> phase r' = phase r \<and> enrollment r' = enrollment r
         \<and> locations r' = locations r
         \<and> (r' = r
             \<or> (\<not> truthy summ \<and> \<not> truthy dd
                 \<and> (\<exists>d. fst (get_clinical_trial_details_api (nct_id r) w) = Some (Some d)
                         \<and> abstract r' = abstract d \<and> conditions r' = conditions d
                         \<and> interventions r' = interventions d))))
    \<and> (nct_id r = PStr i \<longrightarrow> prefix ''NCT'' i \<longrightarrow>
        answer w (details_api_request (PStr i)) = Some resp \<longrightarrow> status_code resp = 200 \<longrightarrow>
        json resp = Some detail \<longrightarrow> details_of_study (PStr i) detail = Some d \<longrightarrow>
          fst (get_clinical_trial_details_api (nct_id r) w) = Some (Some d)
          \<and> conditions d = study_field detail ''conditionsModule'' ''conditions'' (PList []))"
proof -
  note b = beta_api_study_Append [OF assms]
  note t = beta_api_study_texts [OF assms]
  have p1: "fst (beta_api_enrich r summ dd w) =
           (if truthy summ \<or> truthy dd then Some r
            else (case fst (get_clinical_trial_details_api (nct_id r) w) of
                    None \<Rightarrow> None
                  | Some None \<Rightarrow> Some r
                  | Some (Some d) \<Rightarrow>
                      Some (r\<lparr>abstract := abstract d, conditions := conditions d,
                              interventions := interventions d\<rparr>)))"
    by (auto simp: beta_api_enrich_def enrich_def split: option.splits prod.splits)
  have p2: "\<not> truthy summ \<and> \<not> truthy dd \<longrightarrow> \<not> truthy (abstract r) \<and> interventions r = PNone"
    using b(3) b(5) by simp
  have p4: "fst (beta_api_enrich r summ dd w) = Some r' \<longrightarrow>
         title r' = title r \<and> link r' = link r \<and> snippet r' = snippet r \<and> body r' = body r
         \<and> authors r' = authors r \<and> published r' = published r \<and> pdf_url r' = pdf_url r
         \<and> arxiv_url r' = arxiv_url r \<and> nct_id r' = nct_id r \<and> status r' = status r
         \<and> study_type r' = study_type r \<and> phase r' = phase r \<and> enrollment r' = enrollment r
         \<and> locations r' = locations r
         \<and> (r' = r
             \<or> (\<not> truthy summ \<and> \<not> truthy dd
                 \<and> (\<exists>d. fst (get_clinical_trial_details_api (nct_id r) w) = Some (Some d)
                         \<and> abstract r' = abstract d \<and> conditions r' = conditions d
                         \<and> interventions r' = interventions d)))"
  proof
    assume e: "fst (beta_api_enrich r summ dd w) = Some r'"
    from enrich_cases [OF e]
    show "title r' = title r \<and> link r' = link r \<and> snippet r' = snippet r \<and> body r' = body r
         \<and> authors r' = authors r \<and> published r' = published r \<and> pdf_url r' = pdf_url r
         \<and> arxiv_url r' = arxiv_url r \<and> nct_id r' = nct_id r \<and> status r' = status r
         \<and> study_type r' = study_type r \<and> phase r' = phase r \<and> enrollment r' = enrollment r
         \<and> locations r' = locations r
         \<and> (r' = r
             \<or> (\<not> truthy summ \<and> \<not> truthy dd
                 \<and> (\<exists>d. fst (get_clinical_trial_details_api (nct_id r) w) = Some (Some d)
                         \<and> abstract r' = abstract d \<and> conditions r' = conditions d
                         \<and> interventions r' = interventions d)))"
      by (auto simp: enrich_def)
  qed
  have p5: "nct_id r = PStr i \<longrightarrow> prefix ''NCT'' i \<longrightarrow>
        answer w (details_api_request (PStr i)) = Some resp \<longrightarrow> status_code resp = 200 \<longrightarrow>
        json resp = Some detail \<longrightarrow> details_of_study (PStr i) detail = Some d \<longrightarrow>
          fst (get_clinical_trial_details_api (nct_id r) w) = Some (Some d)
          \<and> conditions d = study_field detail ''conditionsModule'' ''conditions'' (PList [])"
    using details_fetch [of i w resp detail] details_of_study_conditions(1) [of "PStr i" detail d]
    by simp
  from p1 p2 t(3) p4 p5 show ?thesis by blast
qed


theorem enrichment_frame_witness:
  "fst (beta_api_enrich (tier1_record [] []) (PStr []) (PStr [])
          (tier1_world (PList [study_with_summary [] []]) (Some summary_only_details)))
     = Some enriched_record
   \<and> fst (beta_api_enrich (tier1_record ''Short.'' ''Short.'') (PStr ''Short.'') (PStr [])
          (tier1_world (PList [study_with_summary ''Short.'' []]) (Some summary_only_details)))
     = Some (tier1_record ''Short.'' ''Short.'')
   \<and> title enriched_record = title (tier1_record [] [])
   \<and> link enriched_record = link (tier1_record [] [])
   \<and> nct_id enriched_record = nct_id (tier1_record [] [])
   \<and> abstract (tier1_record [] []) = PStr []
   \<and> abstract enriched_record = PStr ''Full summary.''
   \<and> interventions enriched_record = PList []
   \<and> conditions (tier1_record [] []) = PList [PStr ''Diabetes'']
   \<and> conditions detail_record = PList []
   \<and> conditions enriched_record = PList []"
proof -
  let ?w = "tier1_world (PList [study_with_summary [] []]) (Some summary_only_details)"
  let ?v = "tier1_world (PList [study_with_summary ''Short.'' []]) (Some summary_only_details)"
  have s: "beta_api_study (study_with_summary [] [])
     = Some (Append (tier1_record [] []) (PStr []) (PStr []))"
    by (simp add: tier1_eval)
  have s': "beta_api_study (study_with_summary ''Short.'' [])
     = Some (Append (tier1_record ''Short.'' ''Short.'') (PStr ''Short.'') (PStr []))"
    by (simp add: tier1_eval)
  have i: "nct_id (tier1_record [] []) = PStr ''NCT00000001''" and p: "prefix ''NCT'' ''NCT00000001''"
    by (simp_all add: tier1_record_def)
  have a: "answer ?w (details_api_request (PStr ''NCT00000001'')) = Some (json_response summary_only_details)"
    by (simp add: answer_def tier1_world_def dead_world_def last_url_def details_api_request_def)
  have c: "status_code (json_response summary_only_details) = 200"
    "json (json_response summary_only_details) = Some summary_only_details"
    by (simp_all add: json_response_def)
  have d: "details_of_study (PStr ''NCT00000001'') summary_only_details = Some detail_record"
    by (simp add: details_of_study_def summary_only_details_def detail_record_def SearchResult_new_def)
  note th = enrichment_frame [OF s, where w = ?w and r' = enriched_record and i = "''NCT00000001''"
      and resp = "json_response summary_only_details" and detail = summary_only_details
      and d = detail_record]
  note th' = enrichment_frame [OF s', where w = ?v]
  from th i p a c d
  have f: "fst (get_clinical_trial_details_api (nct_id (tier1_record [] [])) ?w) = Some (Some detail_record)"
    and cd: "conditions detail_record
               = study_field summary_only_details ''conditionsModule'' ''conditions'' (PList [])"
    by metis+
  have e: "fst (beta_api_enrich (tier1_record [] []) (PStr []) (PStr []) ?w) = Some enriched_record"
    using th [THEN conjunct1] f
    by (simp add: enriched_record_def detail_record_def tier1_record_def SearchResult_new_def)
  have e': "fst (beta_api_enrich (tier1_record ''Short.'' ''Short.'') (PStr ''Short.'') (PStr []) ?v)
     = Some (tier1_record ''Short.'' ''Short.'')"
    using th' [THEN conjunct1] by simp
  have rest: "title enriched_record = title (tier1_record [] [])
   \<and> link enriched_record = link (tier1_record [] [])
   \<and> nct_id enriched_record = nct_id (tier1_record [] [])
   \<and> abstract (tier1_record [] []) = PStr []
   \<and> abstract enriched_record = PStr ''Full summary.''
   \<and> interventions enriched_record = PList []
   \<and> conditions (tier1_record [] []) = PList [PStr ''Diabetes'']
   \<and> conditions detail_record = PList []
   \<and> conditions enriched_record = PList []"
    by (simp add: enriched_record_def detail_record_def tier1_record_def SearchResult_new_def)
  from e e' rest show ?thesis by simp
qed

text \<open>The claim as written fails for the conditions: the record built from the
  search has the condition of the study (as the run with a failing detail fetch shows),
  and the detail record without conditions replaces it by the empty list.\<close>

theorem enrichment_overwrites_conditions_counterexample:
  "map_option (map conditions)
     (fst (clinicaltrials_search_beta_api ''diabetes'' 2
             (tier1_world (PList [study_with_summary [] []]) None)))
     = Some [PList [PStr ''Diabetes'']]
   \<and> map_option (map conditions)
     (fst (clinicaltrials_search_beta_api ''diabetes'' 2
             (tier1_world (PList [study_with_summary [] []]) (Some summary_only_details))))
     = Some [PList []]"
  by (simp add: tier1_eval)


subsection \<open>List fields that were never assigned are \<open>None\<close>\<close>

lemmas google_eval =
  google_search_def google_search_try_def google_request_def response_items_def requests_get_def
  google_item_def get_page_content_def page_request_def time_sleep_def SearchResult_new_def
  google_world_def google_tool_def two_items_def dead_world_def last_url_def json_response_def
  html_response_def py_take_def google_record_def

lemma google_item_fields:
  assumes "google_item item mc w = (Some r, w1)"
  shows "authors r = PNone \<and> conditions r = PNone \<and> interventions r = PNone \<and> locations r = PNone"
  using assms
  by (auto simp: google_item_def SearchResult_new_def split: option.splits prod.splits Option.bind_splits)

lemma google_loop_fields:
  assumes "google_loop items mc acc w = (Some rs, w')"
    and "\<forall>r\<in>set acc. authors r = PNone \<and> conditions r = PNone \<and> interventions r = PNone \<and> locations r = PNone"
  shows "\<forall>r\<in>set rs. authors r = PNone \<and> conditions r = PNone \<and> interventions r = PNone \<and> locations r = PNone"
  using assms
proof (induction items arbitrary: acc w)
  case Nil
  then show ?case by simp
next
  case (Cons item items)
  obtain res w1 where g: "google_item item mc w = (res, w1)" by (cases "google_item item mc w")
  show ?case
  proof (cases res)
    case None
    with g Cons.prems show ?thesis by simp
  next
    case (Some r1)
    with g Cons.prems have l: "google_loop items mc (acc @ [r1]) (time_sleep 1000 w1) = (Some rs, w')"
      by simp
    from g Some have "authors r1 = PNone \<and> conditions r1 = PNone \<and> interventions r1 = PNone \<and> locations r1 = PNone"
      using google_item_fields by blast
    with Cons.prems(2) have "\<forall>r\<in>set (acc @ [r1]). authors r = PNone \<and> conditions r = PNone \<and> interventions r = PNone \<and> locations r = PNone"
      by auto
    from Cons.IH [OF l this] show ?thesis .
  qed
qed

lemma google_search_fields:
  assumes "fst (google_search self q n mc w) = Some rs"
  shows "\<forall>r\<in>set rs. authors r = PNone \<and> conditions r = PNone \<and> interventions r = PNone \<and> locations r = PNone"
  using assms google_loop_fields [where acc = "[]"]
  by (auto simp: google_search_def google_search_try_def split: if_splits option.splits prod.splits)

lemma beta_api_fields:
  assumes "fst (clinicaltrials_search_beta_api q n w) = Some rs"
  shows "\<forall>r\<in>set rs. authors r = PNone \<and> locations r = PNone"
proof
  fix r assume "r \<in> set rs"
  from beta_api_provenance [OF assms this]
  obtain study r0 summ dd wa where s: "beta_api_study study = Some (Append r0 summ dd)"
    and e: "fst (beta_api_enrich r0 summ dd wa) = Some r"
    by blast
  note b = beta_api_study_Append [OF s]
  from enrich_cases [OF e] b(4,6) show "authors r = PNone \<and> locations r = PNone"
    by (auto simp: enrich_def)
qed


text \<open>
  Claim C10. The four list fields of a new record are \<open>None\<close>, not the empty list.
  Every record \<open>google_search\<close> returns has all four at \<open>None\<close>. Every record
  the structured registry API returns has \<open>authors\<close> and \<open>locations\<close> at \<open>None\<close>;
  a record it builds has \<open>interventions\<close> at \<open>None\<close> too, and after the enrichment
  step \<open>interventions\<close> is still \<open>None\<close> unless the detail fetch ran and returned a
  record. The consumers guard the fields: the
  orchestrator writes \<open>Not specified\<close> for conditions that are \<open>None\<close> and builds the
  text of such a record, and the renderer renders a record whose authors are \<open>None\<close>.
\<close>

theorem list_fields_default_None:
  "authors (SearchResult_new t) = PNone \<and> conditions (SearchResult_new t) = PNone
   \<and> interventions (SearchResult_new t) = PNone \<and> locations (SearchResult_new t) = PNone
   \<and> (fst (google_search self q n mc w) = Some rs \<longrightarrow>
        (\<forall>r\<in>set rs. authors r = PNone \<and> conditions r = PNone
                     \<and> interventions r = PNone \<and> locations r = PNone))
   \<and> (fst (clinicaltrials_search_beta_api q n u) = Some rs1 \<longrightarrow>
        (\<forall>r\<in>set rs1. authors r = PNone \<and> locations r = PNone))
   \<and> (beta_api_study study = Some (Append r0 summ dd) \<longrightarrow>
        authors r0 = PNone \<and> interventions r0 = PNone \<and> locations r0 = PNone)
   \<and> (beta_api_study study = Some (Append r0 summ dd) \<longrightarrow>
        fst (beta_api_enrich r0 summ dd v) = Some r1 \<longrightarrow>
        authors r1 = PNone \<and> locations r1 = PNone
        \<and> (interventions r1 = PNone
            \<or> (\<not> truthy summ \<and> \<not> truthy dd
                \<and> (\<exists>d. fst (get_clinical_trial_details_api (nct_id r0) v) = Some (Some d)
                        \<and> interventions r1 = interventions d))))
   \<and> conditions_line PNone = Some (''Conditions: Not specified'' @ nl)
   \<and> (conditions x = PNone \<longrightarrow> abstract x = PStr a \<longrightarrow> trial_context x \<noteq> None)
   \<and> (authors x = PNone \<longrightarrow> title x = PStr tt \<longrightarrow> render_result x \<noteq> None)"
proof -
  have d: "authors (SearchResult_new t) = PNone \<and> conditions (SearchResult_new t) = PNone
   \<and> interventions (SearchResult_new t) = PNone \<and> locations (SearchResult_new t) = PNone"
    by (simp add: SearchResult_new_def)
  have g: "fst (google_search self q n mc w) = Some rs \<longrightarrow>
        (\<forall>r\<in>set rs. authors r = PNone \<and> conditions r = PNone
                     \<and> interventions r = PNone \<and> locations r = PNone)"
    using google_search_fields by blast
  have t1: "fst (clinicaltrials_search_beta_api q n u) = Some rs1 \<longrightarrow>
        (\<forall>r\<in>set rs1. authors r = PNone \<and> locations r = PNone)"
    using beta_api_fields by blast
  have b: "beta_api_study study = Some (Append r0 summ dd) \<longrightarrow>
        authors r0 = PNone \<and> interventions r0 = PNone \<and> locations r0 = PNone"
    using beta_api_study_Append(4,5,6) [of study r0 summ dd] by simp
  have e: "beta_api_study study = Some (Append r0 summ dd) \<longrightarrow>
        fst (beta_api_enrich r0 summ dd v) = Some r1 \<longrightarrow>
        authors r1 = PNone \<and> locations r1 = PNone
        \<and> (interventions r1 = PNone
            \<or> (\<not> truthy summ \<and> \<not> truthy dd
                \<and> (\<exists>d. fst (get_clinical_trial_details_api (nct_id r0) v) = Some (Some d)
                        \<and> interventions r1 = interventions d)))"
  proof (intro impI)
    assume s: "beta_api_study study = Some (Append r0 summ dd)"
      and f: "fst (beta_api_enrich r0 summ dd v) = Some r1"
    note bb = beta_api_study_Append [OF s]
    from enrich_cases [OF f] bb(4,5,6)
    show "authors r1 = PNone \<and> locations r1 = PNone
        \<and> (interventions r1 = PNone
            \<or> (\<not> truthy summ \<and> \<not> truthy dd
                \<and> (\<exists>d. fst (get_clinical_trial_details_api (nct_id r0) v) = Some (Some d)
                        \<and> interventions r1 = interventions d)))"
      by (auto simp: enrich_def)
  qed
  have c: "conditions_line PNone = Some (''Conditions: Not specified'' @ nl)"
    by (simp add: conditions_line_def)
  have o: "conditions x = PNone \<longrightarrow> abstract x = PStr a \<longrightarrow> trial_context x \<noteq> None"
    by (simp add: trial_context_def c summary_line_def)
  have r: "authors x = PNone \<longrightarrow> title x = PStr tt \<longrightarrow> render_result x \<noteq> None"
    by (simp add: render_result_def)
  from d g t1 b e c o r show ?thesis by blast
qed


theorem list_fields_default_None_witness:
  "map_option (map authors) (fst (google_search google_tool ''diabetes'' 1 500 google_world))
     = Some [PNone, PNone]
   \<and> map_option (map conditions) (fst (google_search google_tool ''diabetes'' 1 500 google_world))
     = Some [PNone, PNone]
   \<and> map_option (map authors)
        (fst (clinicaltrials_search_beta_api ''diabetes'' 2
                (tier1_world (PList [study_with_summary ''Short.'' []]) None)))
     = Some [PNone]
   \<and> interventions (tier1_record ''Short.'' ''Short.'') = PNone
   \<and> interventions enriched_record = PList []
   \<and> trial_context short_trial \<noteq> None
   \<and> render_result short_trial \<noteq> None"
proof -
  have g: "fst (google_search google_tool ''diabetes'' 1 500 google_world)
     = Some [google_record ''First'' ''http://a.example'' ''one'',
             google_record ''Second'' ''http://b.example'' ''two'']"
    by (simp add: google_eval)
  have s: "beta_api_study (study_with_summary ''Short.'' [])
     = Some (Append (tier1_record ''Short.'' ''Short.'') (PStr ''Short.'') (PStr []))"
    by (simp add: tier1_eval)
  have e: "fst (beta_api_enrich (tier1_record ''Short.'' ''Short.'') (PStr ''Short.'') (PStr []) dead_world)
     = Some (tier1_record ''Short.'' ''Short.'')"
    by (simp add: beta_api_enrich_def)
  have c: "conditions short_trial = PNone" and a: "abstract short_trial = PStr ''A short abstract.''"
    and au: "authors short_trial = PNone" and t: "title short_trial = PStr ''Metformin in Type 2 Diabetes''"
    by (simp_all add: short_trial_def SearchResult_new_def)
  have i: "interventions enriched_record = PList []"
    by (simp add: enriched_record_def)
  have f: "fst (clinicaltrials_search_beta_api ''diabetes'' 1
                 (tier1_world (PList [study_with_summary ''Short.'' []]) None))
     = Some [tier1_record ''Short.'' ''Short.'']"
    "fst (clinicaltrials_search_beta_api ''diabetes'' 2
                 (tier1_world (PList [study_with_summary ''Short.'' []]) None))
     = Some [tier1_record ''Short.'' ''Short.'']"
    by (simp_all add: tier1_eval)
  show ?thesis
    using list_fields_default_None
      [where self = google_tool and q = "''diabetes''" and n = 1 and mc = 500 and w = google_world
         and u = "tier1_world (PList [study_with_summary ''Short.'' []]) None"
         and ?rs1.0 = "[tier1_record ''Short.'' ''Short.'']"
         and rs = "[google_record ''First'' ''http://a.example'' ''one'',
                    google_record ''Second'' ''http://b.example'' ''two'']"
         and study = "study_with_summary ''Short.'' []" and ?r0.0 = "tier1_record ''Short.'' ''Short.''"
         and summ = "PStr ''Short.''" and dd = "PStr []" and v = dead_world
         and ?r1.0 = "tier1_record ''Short.'' ''Short.''" and x = short_trial
         and a = "''A short abstract.''" and tt = "''Metformin in Type 2 Diabetes''"]
      g s e c a au t i f
    by simp
qed


subsection \<open>How many records a fetch returns\<close>









lemma arxiv_loop_result:
  "arxiv_loop g acc w = (res, w') \<Longrightarrow>
   (raises g \<longrightarrow> res = None) \<and> (\<not> raises g \<longrightarrow> (\<exists>rs. res = Some rs \<and> length rs = length acc + yielded g))"
  by (induction g acc w rule: arxiv_loop.induct) auto







lemmas scrape_eval =
  clinicaltrials_search_scrape_def scrape_try_def scrape_request_def requests_get_def
  scrape_world_def dead_world_def last_url_def html_response_def search_page_def empty_soup_def
  py_take_def result_link_def tag_get_def href_nct_id_def last_segment_def py_split_def
  get_clinical_trial_details_scrape_def page_request_def time_sleep_def



subsection \<open>No exception leaves an adapter\<close>

lemma google_loop_missing_key:
  assumes "\<exists>item\<in>set items. py_getitem item ''title'' = None \<or> py_getitem item ''link'' = None
                                \<or> py_getitem item ''snippet'' = None"
  shows "fst (google_loop items mc acc w) = None"
  using assms
proof (induction items arbitrary: acc w)
  case Nil
  then show ?case by simp
next
  case (Cons item items)
  obtain res w1 where g: "google_item item mc w = (res, w1)" by (cases "google_item item mc w")
  show ?case
  proof (cases res)
    case None
    with g show ?thesis by simp
  next
    case (Some r1)
    with g have ok: "py_getitem item ''title'' \<noteq> None \<and> py_getitem item ''link'' \<noteq> None
                     \<and> py_getitem item ''snippet'' \<noteq> None"
      by (auto simp: google_item_def split: option.splits prod.splits Option.bind_splits)
    with Cons.prems have "\<exists>item\<in>set items. py_getitem item ''title'' = None \<or> py_getitem item ''link'' = None
                                \<or> py_getitem item ''snippet'' = None"
      by auto
    from Cons.IH [OF this] g Some show ?thesis by simp
  qed
qed

text \<open>
  Claim C4, as the program has it. Each of the four fetches returns a list for every
  input and every answer of the remote side; none raises. The list is empty when the
  search request raises or its status is not 200; for the web search and the structured
  registry API also when the body is not JSON; for the web search also when an item of
  the response lacks its title, link or snippet; for the arXiv search when the client
  raises. Fields missing in a study of the structured registry API are no failure: when
  the response has status 200 and every study of it is plain, the fetch returns the
  records \<open>study_record\<close> of the studies that have an identifier, in their order, and a
  study without identifier is skipped. A field the study does not have takes its default
  in the record: the empty string for title, status and study type, the empty list for
  the conditions, \<open>Not Specified\<close> for the phase.
\<close>

theorem adapters_never_raise:
  "(\<exists>rs. fst (google_search self q n mc w) = Some rs)
   \<and> (\<exists>rs. fst (arxiv_search q n w) = Some rs)
   \<and> (\<exists>rs. fst (clinicaltrials_search_beta_api q n w) = Some rs)
   \<and> (\<exists>rs. fst (clinicaltrials_search_scrape q n w) = Some rs)
   \<and> (failed (answer w (google_request (the (api_key self)) (the (search_engine_id self)) q n))
        \<or> not_json (answer w (google_request (the (api_key self)) (the (search_engine_id self)) q n))
      \<longrightarrow> fst (google_search self q n mc w) = Some [])
   \<and> (answer w (google_request (the (api_key self)) (the (search_engine_id self)) q n) = Some resp
        \<longrightarrow> response_items resp = Some items
        \<longrightarrow> (\<exists>item\<in>set items. py_getitem item ''title'' = None \<or> py_getitem item ''link'' = None
                                  \<or> py_getitem item ''snippet'' = None)
        \<longrightarrow> fst (google_search self q n mc w) = Some [])
   \<and> (raises (arxiv_client w (trace w @ [ArxivResults q n])) \<longrightarrow> fst (arxiv_search q n w) = Some [])
   \<and> (failed (answer w (beta_api_request q n)) \<or> not_json (answer w (beta_api_request q n))
      \<longrightarrow> fst (clinicaltrials_search_beta_api q n w) = Some [])
   \<and> (failed (answer w (scrape_request q)) \<longrightarrow> fst (clinicaltrials_search_scrape q n w) = Some [])
   \<and> (answer w (beta_api_request q n) = Some tresp \<longrightarrow> status_code tresp = 200 \<longrightarrow>
        response_studies tresp = Some (PList ss) \<longrightarrow> (\<forall>study\<in>set ss. plain_study study) \<longrightarrow>
        fst (clinicaltrials_search_beta_api q n w) = Some (map study_record (filter has_id ss)))
   \<and> (map_of kvs k = None \<longrightarrow> lookup (PDict kvs) k dflt = dflt)
   \<and> title (study_record st)
       = (if truthy (study_field st ''identificationModule'' ''briefTitle'' (PStr []))
          then study_field st ''identificationModule'' ''briefTitle'' (PStr [])
          else study_field st ''identificationModule'' ''officialTitle'' (PStr []))
   \<and> status (study_record st) = study_field st ''statusModule'' ''overallStatus'' (PStr [])
   \<and> study_type (study_record st) = study_field st ''designModule'' ''studyType'' (PStr [])
   \<and> conditions (study_record st) = study_field st ''conditionsModule'' ''conditions'' (PList [])
   \<and> phase (study_record st) = phase_text (study_field st ''designModule'' ''phases'' (PList []))
   \<and> phase_text (PList []) = PStr ''Not Specified''"
proof -
  have r1: "\<exists>rs. fst (google_search self q n mc w) = Some rs"
    by (auto simp: google_search_def split: option.splits prod.splits)
  have r2: "\<exists>rs. fst (arxiv_search q n w) = Some rs"
    by (auto simp: arxiv_search_def Let_def split: option.splits prod.splits)
  have r3: "\<exists>rs. fst (clinicaltrials_search_beta_api q n w) = Some rs"
    by (auto simp: clinicaltrials_search_beta_api_def split: option.splits prod.splits)
  have r4: "\<exists>rs. fst (clinicaltrials_search_scrape q n w) = Some rs"
    by (auto simp: clinicaltrials_search_scrape_def split: option.splits prod.splits)
  have g1: "failed (answer w (google_request (the (api_key self)) (the (search_engine_id self)) q n))
        \<or> not_json (answer w (google_request (the (api_key self)) (the (search_engine_id self)) q n))
      \<longrightarrow> fst (google_search self q n mc w) = Some []"
    by (auto simp: google_search_def google_search_try_def requests_get_def Let_def answer_def
                   failed_def not_json_def response_items_def
             split: option.splits prod.splits if_splits)
  have g2: "answer w (google_request (the (api_key self)) (the (search_engine_id self)) q n) = Some resp
        \<longrightarrow> response_items resp = Some items
        \<longrightarrow> (\<exists>item\<in>set items. py_getitem item ''title'' = None \<or> py_getitem item ''link'' = None
                                  \<or> py_getitem item ''snippet'' = None)
        \<longrightarrow> fst (google_search self q n mc w) = Some []"
  proof (intro impI)
    assume a: "answer w (google_request (the (api_key self)) (the (search_engine_id self)) q n) = Some resp"
      and i: "response_items resp = Some items"
      and m: "\<exists>item\<in>set items. py_getitem item ''title'' = None \<or> py_getitem item ''link'' = None
                                  \<or> py_getitem item ''snippet'' = None"
    have "fst (google_loop items mc []
                 (w\<lparr>trace := trace w @ [HttpGet (google_request (the (api_key self)) (the (search_engine_id self)) q n)]\<rparr>)) = None"
      using google_loop_missing_key [OF m] .
    with a i show "fst (google_search self q n mc w) = Some []"
      by (auto simp: google_search_def google_search_try_def requests_get_def Let_def answer_def
               split: option.splits prod.splits if_splits)
  qed
  have a1: "raises (arxiv_client w (trace w @ [ArxivResults q n])) \<longrightarrow> fst (arxiv_search q n w) = Some []"
  proof
    assume r: "raises (arxiv_client w (trace w @ [ArxivResults q n]))"
    obtain res w' where l: "arxiv_loop (arxiv_client w (trace w @ [ArxivResults q n])) []
                              (w\<lparr>trace := trace w @ [ArxivResults q n]\<rparr>) = (res, w')"
      by (cases "arxiv_loop (arxiv_client w (trace w @ [ArxivResults q n])) []
                              (w\<lparr>trace := trace w @ [ArxivResults q n]\<rparr>)")
    from arxiv_loop_result [OF l] r have "res = None" by simp
    with l show "fst (arxiv_search q n w) = Some []"
      by (simp add: arxiv_search_def Let_def)
  qed
  have t1: "failed (answer w (beta_api_request q n)) \<or> not_json (answer w (beta_api_request q n))
      \<longrightarrow> fst (clinicaltrials_search_beta_api q n w) = Some []"
    by (auto simp: clinicaltrials_search_beta_api_def beta_api_try_def requests_get_def Let_def answer_def
                   failed_def not_json_def response_studies_def
             split: option.splits prod.splits if_splits)
  have t2: "failed (answer w (scrape_request q)) \<longrightarrow> fst (clinicaltrials_search_scrape q n w) = Some []"
    by (auto simp: clinicaltrials_search_scrape_def scrape_try_def requests_get_def Let_def answer_def
                   failed_def
             split: option.splits prod.splits if_splits)
  have pl: "answer w (beta_api_request q n) = Some tresp \<longrightarrow> status_code tresp = 200 \<longrightarrow>
        response_studies tresp = Some (PList ss) \<longrightarrow> (\<forall>study\<in>set ss. plain_study study) \<longrightarrow>
        fst (clinicaltrials_search_beta_api q n w) = Some (map study_record (filter has_id ss))"
    using plain_fetch by blast
  have lk: "map_of kvs k = None \<longrightarrow> lookup (PDict kvs) k dflt = dflt"
    by simp
  have f1: "title (study_record st)
       = (if truthy (study_field st ''identificationModule'' ''briefTitle'' (PStr []))
          then study_field st ''identificationModule'' ''briefTitle'' (PStr [])
          else study_field st ''identificationModule'' ''officialTitle'' (PStr []))"
    and f2: "status (study_record st) = study_field st ''statusModule'' ''overallStatus'' (PStr [])"
    and f3: "study_type (study_record st) = study_field st ''designModule'' ''studyType'' (PStr [])"
    and f4: "conditions (study_record st) = study_field st ''conditionsModule'' ''conditions'' (PList [])"
    and f5: "phase (study_record st) = phase_text (study_field st ''designModule'' ''phases'' (PList []))"
    by (simp_all add: study_record_def Let_def SearchResult_new_def)
  have f6: "phase_text (PList []) = PStr ''Not Specified''"
    by (simp add: phase_text_def)
  have part1: "(\<exists>rs. fst (google_search self q n mc w) = Some rs)
   \<and> (\<exists>rs. fst (arxiv_search q n w) = Some rs)
   \<and> (\<exists>rs. fst (clinicaltrials_search_beta_api q n w) = Some rs)
   \<and> (\<exists>rs. fst (clinicaltrials_search_scrape q n w) = Some rs)
   \<and> (failed (answer w (google_request (the (api_key self)) (the (search_engine_id self)) q n))
        \<or> not_json (answer w (google_request (the (api_key self)) (the (search_engine_id self)) q n))
      \<longrightarrow> fst (google_search self q n mc w) = Some [])
   \<and> (answer w (google_request (the (api_key self)) (the (search_engine_id self)) q n) = Some resp
        \<longrightarrow> response_items resp = Some items
        \<longrightarrow> (\<exists>item\<in>set items. py_getitem item ''title'' = None \<or> py_getitem item ''link'' = None
                                  \<or> py_getitem item ''snippet'' = None)
        \<longrightarrow> fst (google_search self q n mc w) = Some [])
   \<and> (raises (arxiv_client w (trace w @ [ArxivResults q n])) \<longrightarrow> fst (arxiv_search q n w) = Some [])
   \<and> (failed (answer w (beta_api_request q n)) \<or> not_json (answer w (beta_api_request q n))
      \<longrightarrow> fst (clinicaltrials_search_beta_api q n w) = Some [])
   \<and> (failed (answer w (scrape_request q)) \<longrightarrow> fst (clinicaltrials_search_scrape q n w) = Some [])"
    using r1 r2 r3 r4 g1 g2 a1 t1 t2 by blast
  from part1 pl lk f1 f2 f3 f4 f5 f6 show ?thesis
    by (intro conjI) (elim conjE, assumption)+
qed

theorem adapters_never_raise_witness:
  "fst (google_search google_tool ''diabetes'' 2 500 dead_world) = Some []
   \<and> fst (google_search google_tool ''diabetes'' 2 500 scrape_world) = Some []
   \<and> fst (google_search google_tool ''diabetes'' 2 500 no_snippet_world) = Some []
   \<and> fst (arxiv_search ''diabetes'' 2 dead_world) = Some []
   \<and> fst (clinicaltrials_search_beta_api ''diabetes'' 2 dead_world) = Some []
   \<and> fst (clinicaltrials_search_beta_api ''diabetes'' 2 scrape_world) = Some []
   \<and> fst (clinicaltrials_search_scrape ''diabetes'' 2 dead_world) = Some []
   \<and> fst (clinicaltrials_search_beta_api ''diabetes'' 2
          (tier1_world (PList [no_id_study, bare_study]) None)) = Some [study_record bare_study]
   \<and> has_id bare_study \<and> \<not> has_id no_id_study
   \<and> title (study_record bare_study) = PStr []
   \<and> status (study_record bare_study) = PStr []
   \<and> study_type (study_record bare_study) = PStr []
   \<and> conditions (study_record bare_study) = PList []
   \<and> phase (study_record bare_study) = PStr ''Not Specified''
   \<and> lookup (PDict [(''nctId'', PStr ''NCT00000001'')]) ''briefTitle'' (PStr []) = PStr []"
proof -
  let ?w = "tier1_world (PList [no_id_study, bare_study]) None"
  let ?resp = "json_response (PDict [(''studies'', PList [no_id_study, bare_study])])"
  have ta: "answer ?w (beta_api_request ''diabetes'' 2) = Some ?resp"
    by (simp add: answer_def tier1_world_def dead_world_def last_url_def beta_api_request_def)
  have tb: "status_code ?resp = 200"
    by (simp add: json_response_def)
  have tc: "response_studies ?resp = Some (PList [no_id_study, bare_study])"
    by (simp add: response_studies_def json_response_def)
  have p1: "plain_study bare_study"
    by (simp add: plain_study_def bare_study_def study_module_def study_field_def)
  have p2: "plain_study no_id_study"
    by (simp add: plain_study_def no_id_study_def study_module_def study_field_def)
  from p1 p2 have td: "\<forall>study\<in>set [no_id_study, bare_study]. plain_study study"
    by simp
  have h1: "has_id bare_study"
    by (simp add: has_id_def bare_study_def study_module_def study_field_def)
  have h2: "\<not> has_id no_id_study"
    by (simp add: has_id_def no_id_study_def study_module_def study_field_def)
  have mk: "map_of [(''nctId'', PStr ''NCT00000001'')] ''briefTitle'' = None"
    by simp
  note t = adapters_never_raise [where q = "''diabetes''" and n = 2 and w = ?w and tresp = ?resp
      and ss = "[no_id_study, bare_study]" and st = bare_study
      and kvs = "[(''nctId'', PStr ''NCT00000001'')]" and k = "''briefTitle''" and dflt = "PStr []"]
  have sf: "study_field bare_study ''identificationModule'' ''briefTitle'' (PStr []) = PStr []"
    "study_field bare_study ''identificationModule'' ''officialTitle'' (PStr []) = PStr []"
    "study_field bare_study ''statusModule'' ''overallStatus'' (PStr []) = PStr []"
    "study_field bare_study ''designModule'' ''studyType'' (PStr []) = PStr []"
    "study_field bare_study ''conditionsModule'' ''conditions'' (PList []) = PList []"
    "study_field bare_study ''designModule'' ''phases'' (PList []) = PList []"
    by (simp_all add: bare_study_def study_module_def study_field_def)
  have "fst (clinicaltrials_search_beta_api ''diabetes'' 2 ?w)
            = Some (map study_record (filter has_id [no_id_study, bare_study]))"
    using t ta tb tc td by metis
  with h1 h2 have c8: "fst (clinicaltrials_search_beta_api ''diabetes'' 2 ?w) = Some [study_record bare_study]"
    by simp
  have c9: "lookup (PDict [(''nctId'', PStr ''NCT00000001'')]) ''briefTitle'' (PStr []) = PStr []"
    using t mk by metis
  have c10: "title (study_record bare_study) = PStr []"
    using t sf by (metis truthy.simps)
  have c11: "status (study_record bare_study) = PStr []"
    using t sf by metis
  have c12: "study_type (study_record bare_study) = PStr []"
    using t sf by metis
  have c13: "conditions (study_record bare_study) = PList []"
    using t sf by metis
  have c14: "phase (study_record bare_study) = PStr ''Not Specified''"
    using t sf by metis
  have k: "the (api_key google_tool) = ''key''" "the (search_engine_id google_tool) = ''cx''"
    by (simp_all add: google_tool_def)
  have f1: "failed (answer dead_world (google_request ''key'' ''cx'' ''diabetes'' 2))"
    and f2: "failed (answer dead_world (beta_api_request ''diabetes'' 2))"
    and f3: "failed (answer dead_world (scrape_request ''diabetes''))"
    and f4: "raises (arxiv_client dead_world (trace dead_world @ [ArxivResults ''diabetes'' 2]))"
    by (simp_all add: failed_def answer_def dead_world_def)
  have j1: "not_json (answer scrape_world (google_request ''key'' ''cx'' ''diabetes'' 2))"
    and j2: "not_json (answer scrape_world (beta_api_request ''diabetes'' 2))"
    by (simp_all add: not_json_def answer_def scrape_world_def dead_world_def last_url_def
          google_request_def beta_api_request_def html_response_def)
  have m1: "answer no_snippet_world (google_request ''key'' ''cx'' ''diabetes'' 2)
              = Some (json_response (PDict [(''items'', PList [no_snippet_item])]))"
    by (simp add: answer_def no_snippet_world_def dead_world_def last_url_def google_request_def)
  have m2: "response_items (json_response (PDict [(''items'', PList [no_snippet_item])]))
              = Some [no_snippet_item]"
    by (simp add: response_items_def json_response_def)
  have m3: "\<exists>item\<in>set [no_snippet_item]. py_getitem item ''title'' = None \<or> py_getitem item ''link'' = None
                                  \<or> py_getitem item ''snippet'' = None"
    by (simp add: no_snippet_item_def)
  note d = adapters_never_raise [where self = google_tool and q = "''diabetes''" and n = 2 and mc = 500
      and w = dead_world]
  note h = adapters_never_raise [where self = google_tool and q = "''diabetes''" and n = 2 and mc = 500
      and w = scrape_world]
  note s = adapters_never_raise [where self = google_tool and q = "''diabetes''" and n = 2 and mc = 500
      and w = no_snippet_world
      and resp = "json_response (PDict [(''items'', PList [no_snippet_item])])"
      and items = "[no_snippet_item]"]
  have c1: "fst (google_search google_tool ''diabetes'' 2 500 dead_world) = Some []"
    using d f1 k by simp
  have c2: "fst (google_search google_tool ''diabetes'' 2 500 scrape_world) = Some []"
    using h j1 k by simp
  have c3: "fst (google_search google_tool ''diabetes'' 2 500 no_snippet_world) = Some []"
    using s m1 m2 m3 k by auto
  have c4: "fst (arxiv_search ''diabetes'' 2 dead_world) = Some []"
    using d f4 by simp
  have c5: "fst (clinicaltrials_search_beta_api ''diabetes'' 2 dead_world) = Some []"
    using d f2 by simp
  have c6: "fst (clinicaltrials_search_beta_api ''diabetes'' 2 scrape_world) = Some []"
    using h j2 by simp
  have c7: "fst (clinicaltrials_search_scrape ''diabetes'' 2 dead_world) = Some []"
    using d f3 by simp
  from c1 c2 c3 c4 c5 c6 c7 c8 h1 h2 c10 c11 c12 c13 c14 c9 show ?thesis by simp
qed


text \<open>The claim as written fails for a body with missing fields: a study with only
  an identifier and a brief summary gives a record with the defaults, not the empty
  list.\<close>

theorem field_missing_body_counterexample:
  "map_option (map title)
     (fst (clinicaltrials_search_beta_api ''diabetes'' 2 (tier1_world (PList [bare_study]) None)))
     = Some [PStr []]
   \<and> map_option (map status)
     (fst (clinicaltrials_search_beta_api ''diabetes'' 2 (tier1_world (PList [bare_study]) None)))
     = Some [PStr []]
   \<and> map_option (map phase)
     (fst (clinicaltrials_search_beta_api ''diabetes'' 2 (tier1_world (PList [bare_study]) None)))
     = Some [PStr ''Not Specified'']
   \<and> fst (clinicaltrials_search_beta_api ''diabetes'' 2 (tier1_world (PList [bare_study]) None))
     \<noteq> Some []"
  by (simp add: tier1_eval bare_study_def)


subsection \<open>The fallback from the structured API to the scrape\<close>

lemma searches_sleep [simp]: "scrape_searches (time_sleep ms w) = scrape_searches w"
  by (simp add: scrape_searches_def time_sleep_def is_scrape_search_def)

lemma searches_get:
  "scrape_searches (snd (requests_get r w))
     = scrape_searches w + (if url r = ''https://clinicaltrials.gov/search'' then 1 else 0)"
  by (simp add: scrape_searches_def requests_get_def is_scrape_search_def Let_def)

lemma searches_details_api:
  "scrape_searches (snd (get_clinical_trial_details_api n w)) = scrape_searches w"
proof -
  have "url (details_api_request n) \<noteq> ''https://clinicaltrials.gov/search''"
    by (simp add: details_api_request_def)
  with searches_get [of "details_api_request n" w]
  have "scrape_searches (snd (requests_get (details_api_request n) w)) = scrape_searches w"
    by simp
  then show ?thesis
    by (auto simp: get_clinical_trial_details_api_def split: option.splits bool.splits prod.splits)
qed

lemma searches_enrich:
  "scrape_searches (snd (beta_api_enrich r summ dd w)) = scrape_searches w"
  using searches_details_api [of "nct_id r" w]
  by (auto simp: beta_api_enrich_def split: option.splits prod.splits)

lemma searches_beta_api_loop:
  "scrape_searches (snd (beta_api_loop ss acc w)) = scrape_searches w"
proof (induction ss arbitrary: acc w)
  case Nil
  show ?case by simp
next
  case (Cons study ss)
  show ?case
  proof (cases "beta_api_study study")
    case None
    then show ?thesis by simp
  next
    case (Some st)
    show ?thesis
    proof (cases st)
      case Continue
      with Some Cons.IH show ?thesis by simp
    next
      case (Append r0 summ dd)
      obtain res w1 where e: "beta_api_enrich r0 summ dd w = (res, w1)"
        by (cases "beta_api_enrich r0 summ dd w")
      with searches_enrich [of r0 summ dd w] have w1: "scrape_searches w1 = scrape_searches w"
        by simp
      show ?thesis
      proof (cases res)
        case None
        with Some Append e w1 show ?thesis by simp
      next
        case (Some r1)
        with \<open>beta_api_study study = Some st\<close> Append e w1 Cons.IH [of "acc @ [r1]" "time_sleep 2000 w1"]
        show ?thesis by simp
      qed
    qed
  qed
qed

lemma searches_beta_api:
  "scrape_searches (snd (clinicaltrials_search_beta_api q n w)) = scrape_searches w"
proof -
  have u: "url (beta_api_request q n) \<noteq> ''https://clinicaltrials.gov/search''"
    by (simp add: beta_api_request_def)
  obtain a w1 where g: "requests_get (beta_api_request q n) w = (a, w1)"
    by (cases "requests_get (beta_api_request q n) w")
  with searches_get [of "beta_api_request q n" w] u have w1: "scrape_searches w1 = scrape_searches w"
    by simp
  have "scrape_searches (snd (beta_api_try q n w)) = scrape_searches w"
    using g w1 searches_beta_api_loop
    by (auto simp: beta_api_try_def split: option.splits if_splits)
  then show ?thesis
    by (auto simp: clinicaltrials_search_beta_api_def split: option.splits prod.splits)
qed

lemma searches_details_scrape:
  "scrape_searches (snd (get_clinical_trial_details_scrape (''https://clinicaltrials.gov/ct2/show/'' @ n) w))
     = scrape_searches w"
proof -
  have "url (page_request (''https://clinicaltrials.gov/ct2/show/'' @ n)) \<noteq> ''https://clinicaltrials.gov/search''"
    by (simp add: page_request_def)
  with searches_get [of "page_request (''https://clinicaltrials.gov/ct2/show/'' @ n)" w]
  have "scrape_searches (snd (requests_get (page_request (''https://clinicaltrials.gov/ct2/show/'' @ n)) w))
          = scrape_searches w"
    by simp
  then show ?thesis
    by (auto simp: get_clinical_trial_details_scrape_def split: option.splits prod.splits)
qed

lemma searches_scrape_loop:
  "scrape_searches (snd (scrape_loop links acc w)) = scrape_searches w"
proof (induction links arbitrary: acc w)
  case Nil
  show ?case by simp
next
  case (Cons lnk links)
  show ?case
  proof (cases "tag_get lnk ''href'' [] = []")
    case True
    with Cons.IH show ?thesis by simp
  next
    case False
    show ?thesis
    proof (cases "href_nct_id (tag_get lnk ''href'' [])")
      case None
      with False Cons.IH show ?thesis by (simp add: Let_def)
    next
      case (Some n)
      obtain res w1 where d: "get_clinical_trial_details_scrape (''https://clinicaltrials.gov/ct2/show/'' @ n) w = (res, w1)"
        by (cases "get_clinical_trial_details_scrape (''https://clinicaltrials.gov/ct2/show/'' @ n) w")
      with searches_details_scrape [of n w] have w1: "scrape_searches w1 = scrape_searches w" by simp
      show ?thesis
      proof (cases res)
        case None
        with False Some d w1 Cons.IH [of acc w1] show ?thesis by (simp add: Let_def)
      next
        case (Some info)
        with False \<open>href_nct_id (tag_get lnk ''href'' []) = Some n\<close> d w1
          Cons.IH [of "acc @ [info]" "time_sleep 2000 w1"]
        show ?thesis by (simp add: Let_def)
      qed
    qed
  qed
qed

lemma searches_scrape:
  "scrape_searches (snd (clinicaltrials_search_scrape q n w)) = Suc (scrape_searches w)"
proof -
  have u: "url (scrape_request q) = ''https://clinicaltrials.gov/search''"
    by (simp add: scrape_request_def)
  obtain a w1 where g: "requests_get (scrape_request q) w = (a, w1)"
    by (cases "requests_get (scrape_request q) w")
  with searches_get [of "scrape_request q" w] u have w1: "scrape_searches w1 = Suc (scrape_searches w)"
    by simp
  have "scrape_searches (snd (scrape_try q n w)) = Suc (scrape_searches w)"
    using g w1 searches_scrape_loop
    by (auto simp: scrape_try_def Let_def split: option.splits if_splits prod.splits)
       (metis snd_conv)
  then show ?thesis
    by (auto simp: clinicaltrials_search_scrape_def split: option.splits prod.splits)
qed

text \<open>
  Claim C2. Each call of the scrape adds exactly one request to the search page of the
  registry to the trace, and a call of the structured API adds none, so these requests
  count the invocations of the scrape. In the registry step of the orchestrator the
  count grows by one when the structured API returned the empty list and by nothing
  when it returned a record: the scrape is invoked exactly once in the first case and
  never in the second. The step returns what the scrape returned in the first case and
  what the structured API returned in the second.
\<close>

theorem registry_fallback:
  "scrape_searches (snd (clinicaltrials_search_scrape q n v)) = Suc (scrape_searches v)
   \<and> scrape_searches (snd (clinicaltrials_search_beta_api q n v)) = scrape_searches v
   \<and> scrape_searches (snd (registry_search topic w))
       = scrape_searches w + (if fst (clinicaltrials_search_beta_api topic 2 w) = Some [] then 1 else 0)
   \<and> registry_search topic w
       = (if fst (clinicaltrials_search_beta_api topic 2 w) = Some []
          then clinicaltrials_search_scrape topic 2 (snd (clinicaltrials_search_beta_api topic 2 w))
          else clinicaltrials_search_beta_api topic 2 w)"
proof -
  obtain r1 w1 where t1: "clinicaltrials_search_beta_api topic 2 w = (r1, w1)"
    by (cases "clinicaltrials_search_beta_api topic 2 w")
  have some: "\<exists>rs. r1 = Some rs"
    using t1 by (auto simp: clinicaltrials_search_beta_api_def split: option.splits prod.splits)
  have w1: "scrape_searches w1 = scrape_searches w"
    using searches_beta_api [of topic 2 w] t1 by simp
  have eq: "registry_search topic w
       = (if fst (clinicaltrials_search_beta_api topic 2 w) = Some []
          then clinicaltrials_search_scrape topic 2 (snd (clinicaltrials_search_beta_api topic 2 w))
          else clinicaltrials_search_beta_api topic 2 w)"
    using t1 some by (auto simp: registry_search_def split: if_splits)
  have cnt: "scrape_searches (snd (registry_search topic w))
       = scrape_searches w + (if fst (clinicaltrials_search_beta_api topic 2 w) = Some [] then 1 else 0)"
    using eq t1 w1 searches_scrape [of topic 2 w1] by auto
  from searches_scrape searches_beta_api eq cnt show ?thesis by blast
qed


theorem registry_fallback_witness:
  "fst (clinicaltrials_search_beta_api ''diabetes'' 2 (tier1_world (PList [study_with_summary ''Short.'' []]) None))
     = Some [tier1_record ''Short.'' ''Short.'']
   \<and> fst (registry_search ''diabetes'' (tier1_world (PList [study_with_summary ''Short.'' []]) None))
     = Some [tier1_record ''Short.'' ''Short.'']
   \<and> scrape_searches (snd (registry_search ''diabetes'' (tier1_world (PList [study_with_summary ''Short.'' []]) None)))
     = 0
   \<and> fst (clinicaltrials_search_beta_api ''diabetes'' 2 scrape_world) = Some []
   \<and> scrape_searches (snd (registry_search ''diabetes'' scrape_world)) = 1"
proof -
  have t: "fst (clinicaltrials_search_beta_api ''diabetes'' 2 (tier1_world (PList [study_with_summary ''Short.'' []]) None))
     = Some [tier1_record ''Short.'' ''Short.'']"
    by (simp add: tier1_eval)
  have e: "fst (clinicaltrials_search_beta_api ''diabetes'' 2 scrape_world) = Some []"
    by (simp add: clinicaltrials_search_beta_api_def beta_api_try_def requests_get_def scrape_world_def
          dead_world_def last_url_def beta_api_request_def html_response_def response_studies_def)
  have z1: "scrape_searches (tier1_world (PList [study_with_summary ''Short.'' []]) None) = 0"
    by (simp add: scrape_searches_def tier1_world_def dead_world_def)
  have z2: "scrape_searches scrape_world = 0"
    by (simp add: scrape_searches_def scrape_world_def dead_world_def)
  note a = registry_fallback [where topic = "''diabetes''"
      and w = "tier1_world (PList [study_with_summary ''Short.'' []]) None"]
  note b = registry_fallback [where topic = "''diabetes''" and w = scrape_world]
  have c2: "fst (registry_search ''diabetes'' (tier1_world (PList [study_with_summary ''Short.'' []]) None))
     = Some [tier1_record ''Short.'' ''Short.'']"
    using a t by simp
  have c3: "scrape_searches (snd (registry_search ''diabetes'' (tier1_world (PList [study_with_summary ''Short.'' []]) None)))
     = 0"
    using a t z1 by simp
  have c5: "scrape_searches (snd (registry_search ''diabetes'' scrape_world)) = 1"
    using b e z2 by simp
  from t c2 c3 e c5 show ?thesis by simp
qed

subsection \<open>The candidate selectors of the detail page\<close>

text \<open>The indices the program takes of a split are in range: the separator is in the
  string, so the list has a second element.\<close>

lemma split_from_not_Nil: "split_from sep cur s \<noteq> []"
  by (induction s arbitrary: cur) auto

lemma split_from_length:
  "sep \<noteq> [] \<Longrightarrow> py_in sep s \<Longrightarrow> 2 \<le> length (split_from sep cur s)"
proof (induction s arbitrary: cur)
  case Nil
  then show ?case by simp
next
  case (Cons c cs)
  show ?case
  proof (cases "prefix sep (c # cs)")
    case True
    with Cons.prems(1) split_from_not_Nil [of sep "[]" "drop (length sep - 1) cs"]
    show ?thesis by (cases "split_from sep [] (drop (length sep - 1) cs)") auto
  next
    case False
    with Cons.prems have "py_in sep cs" by simp
    from Cons.IH [OF Cons.prems(1) this] False show ?thesis by simp
  qed
qed

lemma py_split_index_1: "sep \<noteq> [] \<Longrightarrow> py_in sep s \<Longrightarrow> 1 < length (py_split sep s)"
  using split_from_length [of sep s "[]"] by (simp add: py_split_def)

lemma split1_from_length:
  "sep \<noteq> [] \<Longrightarrow> py_in sep s \<Longrightarrow> length (split1_from sep cur s) = 2"
  by (induction s arbitrary: cur) auto

lemma py_split1_index_1: "sep \<noteq> [] \<Longrightarrow> py_in sep s \<Longrightarrow> 1 < length (py_split1 sep s)"
  using split1_from_length [of sep s "[]"] by (simp add: py_split1_def)

lemma first_match_Nil: "first_match f [] = None"
  by (simp add: first_match_def)

lemma first_match_Cons:
  "first_match f (c # cs) = (case f c of Some e \<Rightarrow> Some e | None \<Rightarrow> first_match f cs)"
  by (auto simp: first_match_def split: option.splits)

lemma title_loop_first_match:
  "title_loop s sels d
     = (case first_match (select_one s) sels of None \<Rightarrow> d | Some e \<Rightarrow> py_strip (get_text e))"
  by (induction sels) (auto simp: first_match_Nil first_match_Cons split: option.splits)

lemma summary_loop_first_match:
  "summary_loop s sels d
     = (case first_match (select_one s) sels of None \<Rightarrow> d | Some e \<Rightarrow> py_strip (get_text e))"
  by (induction sels) (auto simp: first_match_Nil first_match_Cons split: option.splits)

lemma status_loop_first_match:
  "status_loop s sels d
     = (case first_match (\<lambda>sel. found (select_elem s ''p'' sel)) sels of
          None \<Rightarrow> d
        | Some e \<Rightarrow> status_of_text (py_strip (get_text e)))"
  by (induction sels) (auto simp: first_match_Nil first_match_Cons found_def split: option.splits)

lemma conditions_loop_first_match:
  "conditions_loop s sels d
     = (case first_match (\<lambda>sel. found (select_elem s ''section'' sel)) sels of
          None \<Rightarrow> d
        | Some sec \<Rightarrow> conditions_of_section sec)"
  by (induction sels) (auto simp: first_match_Nil first_match_Cons found_def split: option.splits)

lemma label_loop_first_match:
  "label_loop lbls d
     = (case first_match label_value lbls of None \<Rightarrow> d | Some v \<Rightarrow> py_strip v)"
  by (induction lbls) (auto simp: first_match_Nil first_match_Cons split: option.splits)

lemma scrape_record_fields:
  "title (scrape_record u s) = PStr (title_loop s title_selectors ''Unknown Title'')"
  "status (scrape_record u s) = PStr (status_loop s status_selectors ''Unknown'')"
  "abstract (scrape_record u s) = PStr (summary_loop s summary_selectors [])"
  "study_type (scrape_record u s) = PStr (label_loop (study_type_selectors s) [])"
  "phase (scrape_record u s) = PStr (label_loop (phase_selectors s) [])"
  "conditions (scrape_record u s) = PList (map PStr (conditions_loop s conditions_selectors []))"
  by (simp_all add: scrape_record_def Let_def SearchResult_new_def)

lemma second_status:
  assumes "select_one s (status_selectors ! 0) = None" and "select_one s ''.statusLabel'' = Some e"
  shows "status_loop s status_selectors d = status_of_text (py_strip (get_text e))"
  using assms by (simp add: status_selectors_def select_elem_def)


lemma empty_page_defaults:
  assumes "\<forall>sel. select s sel = []" and "\<forall>en. find_all s en = []"
    and "\<forall>t. find_string s t = None" and "\<forall>t. find_th_string s t = None"
  shows "title_loop s title_selectors d1 = d1"
    and "status_loop s status_selectors d2 = d2"
    and "summary_loop s summary_selectors d3 = d3"
    and "label_loop (study_type_selectors s) d4 = d4"
    and "label_loop (phase_selectors s) d5 = d5"
    and "conditions_loop s conditions_selectors d6 = d6"
  using assms
  by (simp_all add: title_selectors_def status_selectors_def summary_selectors_def
        study_type_selectors_def phase_selectors_def conditions_selectors_def select_one_def
        select_elem_def label_value_def split: option.splits)

text \<open>
  Claim C5, as the program has it. Each field of the scraped record is the value of the
  first candidate of its list that matches, in the order of the list, and its default
  when none matches: \<open>Unknown Title\<close> for the title, \<open>Unknown\<close> for the status, the
  empty string for summary, study type and phase, the empty list for the conditions. A
  candidate matches when it selects an element, whatever the text of the element. The
  value is the text of the element without surrounding whitespace; for the status, when
  that text contains \<open>Status:\<close>, it is what follows it. So when the first status
  selector selects nothing and the second selects an element, the status comes from
  that element. A page on which nothing matches still gives a record, with the
  defaults, whenever the page was fetched with status 200.
\<close>

theorem scrape_fields_first_match:
  "first_match f [] = None
   \<and> first_match f (c # cs) = (case f c of Some m \<Rightarrow> Some m | None \<Rightarrow> first_match f cs)
   \<and> title (scrape_record u s)
       = PStr (case first_match (select_one s) title_selectors of
                 None \<Rightarrow> ''Unknown Title'' | Some e \<Rightarrow> py_strip (get_text e))
   \<and> status (scrape_record u s)
       = PStr (case first_match (\<lambda>sel. found (select_elem s ''p'' sel)) status_selectors of
                 None \<Rightarrow> ''Unknown'' | Some e \<Rightarrow> status_of_text (py_strip (get_text e)))
   \<and> abstract (scrape_record u s)
       = PStr (case first_match (select_one s) summary_selectors of
                 None \<Rightarrow> [] | Some e \<Rightarrow> py_strip (get_text e))
   \<and> study_type (scrape_record u s)
       = PStr (case first_match label_value (study_type_selectors s) of
                 None \<Rightarrow> [] | Some v \<Rightarrow> py_strip v)
   \<and> phase (scrape_record u s)
       = PStr (case first_match label_value (phase_selectors s) of
                 None \<Rightarrow> [] | Some v \<Rightarrow> py_strip v)
   \<and> conditions (scrape_record u s)
       = PList (map PStr
           (case first_match (\<lambda>sel. found (select_elem s ''section'' sel)) conditions_selectors of
              None \<Rightarrow> [] | Some sec \<Rightarrow> conditions_of_section sec))
   \<and> (select_one s (status_selectors ! 0) = None \<longrightarrow> select_one s (status_selectors ! 1) = Some e2 \<longrightarrow>
        status (scrape_record u s) = PStr (status_of_text (py_strip (get_text e2)))
        \<and> (\<not> py_in ''Status:'' (py_strip (get_text e2)) \<longrightarrow>
             status (scrape_record u s) = PStr (py_strip (get_text e2))))
   \<and> ((\<forall>sel. select s sel = []) \<longrightarrow> (\<forall>en. find_all s en = []) \<longrightarrow>
       (\<forall>t. find_string s t = None) \<longrightarrow> (\<forall>t. find_th_string s t = None) \<longrightarrow>
        title (scrape_record u s) = PStr ''Unknown Title'' \<and> status (scrape_record u s) = PStr ''Unknown''
        \<and> abstract (scrape_record u s) = PStr [] \<and> study_type (scrape_record u s) = PStr []
        \<and> phase (scrape_record u s) = PStr [] \<and> conditions (scrape_record u s) = PList [])
   \<and> (answer w (page_request u) = Some resp \<longrightarrow> status_code resp = 200 \<longrightarrow>
        fst (get_clinical_trial_details_scrape u w) = Some (scrape_record u (page resp)))"
proof -
  note f = scrape_record_fields [of u s]
  have a1: "title (scrape_record u s)
       = PStr (case first_match (select_one s) title_selectors of
                 None \<Rightarrow> ''Unknown Title'' | Some e \<Rightarrow> py_strip (get_text e))"
    by (simp add: f(1) title_loop_first_match)
  have a2: "status (scrape_record u s)
       = PStr (case first_match (\<lambda>sel. found (select_elem s ''p'' sel)) status_selectors of
                 None \<Rightarrow> ''Unknown'' | Some e \<Rightarrow> status_of_text (py_strip (get_text e)))"
    by (simp add: f(2) status_loop_first_match)
  have a3: "abstract (scrape_record u s)
       = PStr (case first_match (select_one s) summary_selectors of
                 None \<Rightarrow> [] | Some e \<Rightarrow> py_strip (get_text e))"
    by (simp add: f(3) summary_loop_first_match)
  have a4: "study_type (scrape_record u s)
       = PStr (case first_match label_value (study_type_selectors s) of
                 None \<Rightarrow> [] | Some v \<Rightarrow> py_strip v)"
    by (simp add: f(4) label_loop_first_match)
  have a5: "phase (scrape_record u s)
       = PStr (case first_match label_value (phase_selectors s) of
                 None \<Rightarrow> [] | Some v \<Rightarrow> py_strip v)"
    by (simp add: f(5) label_loop_first_match)
  have a6: "conditions (scrape_record u s)
       = PList (map PStr
           (case first_match (\<lambda>sel. found (select_elem s ''section'' sel)) conditions_selectors of
              None \<Rightarrow> [] | Some sec \<Rightarrow> conditions_of_section sec))"
    by (simp add: f(6) conditions_loop_first_match)
  have b: "select_one s (status_selectors ! 0) = None \<longrightarrow> select_one s (status_selectors ! 1) = Some e2 \<longrightarrow>
        status (scrape_record u s) = PStr (status_of_text (py_strip (get_text e2)))
        \<and> (\<not> py_in ''Status:'' (py_strip (get_text e2)) \<longrightarrow>
             status (scrape_record u s) = PStr (py_strip (get_text e2)))"
  proof (intro impI)
    assume n: "select_one s (status_selectors ! 0) = None"
      and m: "select_one s (status_selectors ! 1) = Some e2"
    from m have m': "select_one s ''.statusLabel'' = Some e2" by (simp add: status_selectors_def)
    from second_status [OF n m'] f(2)
    show "status (scrape_record u s) = PStr (status_of_text (py_strip (get_text e2)))
        \<and> (\<not> py_in ''Status:'' (py_strip (get_text e2)) \<longrightarrow>
             status (scrape_record u s) = PStr (py_strip (get_text e2)))"
      by (simp add: status_of_text_def)
  qed
  have d: "(\<forall>sel. select s sel = []) \<longrightarrow> (\<forall>en. find_all s en = []) \<longrightarrow>
       (\<forall>t. find_string s t = None) \<longrightarrow> (\<forall>t. find_th_string s t = None) \<longrightarrow>
        title (scrape_record u s) = PStr ''Unknown Title'' \<and> status (scrape_record u s) = PStr ''Unknown''
        \<and> abstract (scrape_record u s) = PStr [] \<and> study_type (scrape_record u s) = PStr []
        \<and> phase (scrape_record u s) = PStr [] \<and> conditions (scrape_record u s) = PList []"
    using empty_page_defaults [of s] f by simp
  have r: "answer w (page_request u) = Some resp \<longrightarrow> status_code resp = 200 \<longrightarrow>
        fst (get_clinical_trial_details_scrape u w) = Some (scrape_record u (page resp))"
    by (simp add: get_clinical_trial_details_scrape_def requests_get_def answer_def Let_def)
  from first_match_Nil [of f] first_match_Cons [of f c cs] a1 a2 a3 a4 a5 a6 b d r
  show ?thesis by blast
qed


theorem scrape_fields_first_match_witness:
  "first_match (select_one status_label_page) status_selectors = Some status_label
   \<and> status (scrape_record ''https://clinicaltrials.gov/ct2/show/NCT00000001'' status_label_page)
       = PStr ''Recruiting''
   \<and> title (scrape_record ''https://clinicaltrials.gov/ct2/show/NCT00000001'' empty_soup)
       = PStr ''Unknown Title''
   \<and> status (scrape_record ''https://clinicaltrials.gov/ct2/show/NCT00000001'' empty_soup)
       = PStr ''Unknown''
   \<and> abstract (scrape_record ''https://clinicaltrials.gov/ct2/show/NCT00000001'' empty_soup) = PStr []
   \<and> study_type (scrape_record ''https://clinicaltrials.gov/ct2/show/NCT00000001'' empty_soup) = PStr []
   \<and> phase (scrape_record ''https://clinicaltrials.gov/ct2/show/NCT00000001'' empty_soup) = PStr []
   \<and> conditions (scrape_record ''https://clinicaltrials.gov/ct2/show/NCT00000001'' empty_soup) = PList []
   \<and> fst (get_clinical_trial_details_scrape ''https://clinicaltrials.gov/ct2/show/NCT00000001'' scrape_world)
       = Some (scrape_record ''https://clinicaltrials.gov/ct2/show/NCT00000001'' status_label_page)"
proof -
  let ?u = "''https://clinicaltrials.gov/ct2/show/NCT00000001''"
  have n: "select_one status_label_page (status_selectors ! 0) = None"
    by (simp add: status_label_page_def empty_soup_def status_selectors_def select_one_def)
  have m: "select_one status_label_page (status_selectors ! 1) = Some status_label"
    by (simp add: status_label_page_def empty_soup_def status_selectors_def select_one_def status_label_def)
  have t: "\<not> py_in ''Status:'' (py_strip (get_text status_label))"
    "py_strip (get_text status_label) = ''Recruiting''"
    by (simp_all add: status_label_def py_strip_def strip_with_def is_space_def)
  have e: "\<forall>sel. select empty_soup sel = []" "\<forall>en. find_all empty_soup en = []"
    "\<forall>t. find_string empty_soup t = None" "\<forall>t. find_th_string empty_soup t = None"
    by (simp_all add: empty_soup_def)
  have a: "answer scrape_world (page_request ?u) = Some (html_response [] status_label_page)"
    by (simp add: answer_def scrape_world_def dead_world_def last_url_def page_request_def)
  have c: "status_code (html_response [] status_label_page) = 200"
    "page (html_response [] status_label_page) = status_label_page"
    by (simp_all add: html_response_def)
  have fm: "first_match (select_one status_label_page) status_selectors = Some status_label"
    using scrape_fields_first_match [where f = "select_one status_label_page"] n m
    by (simp add: status_selectors_def)
  note w1 = scrape_fields_first_match [where u = ?u and s = status_label_page and ?e2.0 = status_label
      and w = scrape_world and resp = "html_response [] status_label_page"]
  note w2 = scrape_fields_first_match [where u = ?u and s = empty_soup]
  have st: "status (scrape_record ?u status_label_page) = PStr ''Recruiting''"
    using w1 n m t by metis
  have em: "fst (get_clinical_trial_details_scrape ?u scrape_world)
       = Some (scrape_record ?u status_label_page)"
    using w1 a c by metis
  have df: "title (scrape_record ?u empty_soup) = PStr ''Unknown Title''
      \<and> status (scrape_record ?u empty_soup) = PStr ''Unknown''
      \<and> abstract (scrape_record ?u empty_soup) = PStr []
      \<and> study_type (scrape_record ?u empty_soup) = PStr []
      \<and> phase (scrape_record ?u empty_soup) = PStr []
      \<and> conditions (scrape_record ?u empty_soup) = PList []"
    using w2 e by metis
  from fm st em df show ?thesis by simp
qed

text \<open>The claim as written fails for the default of the title, which is
  \<open>Unknown Title\<close> and not \<open>Unknown\<close>.\<close>

theorem scrape_title_default_counterexample:
  "title (scrape_record ''https://clinicaltrials.gov/ct2/show/NCT00000001'' empty_soup)
     = PStr ''Unknown Title''
   \<and> title (scrape_record ''https://clinicaltrials.gov/ct2/show/NCT00000001'' empty_soup)
     \<noteq> PStr ''Unknown''
   \<and> map_option (map title) (fst (clinicaltrials_search_scrape ''diabetes'' 2 scrape_world))
     = Some [PStr ''Unknown Title'', PStr ''Unknown Title'']"
proof -
  have t: "\<And>u. title (scrape_record u empty_soup) = PStr ''Unknown Title''"
    by (simp add: scrape_record_fields title_selectors_def select_one_def empty_soup_def)
  have t2: "\<And>u. title (scrape_record u status_label_page) = PStr ''Unknown Title''"
    by (simp add: scrape_record_fields title_selectors_def select_one_def status_label_page_def empty_soup_def)
  have s: "fst (clinicaltrials_search_scrape ''diabetes'' 2 scrape_world)
     = Some [scrape_record ''https://clinicaltrials.gov/ct2/show/NCT00000001'' status_label_page,
             scrape_record ''https://clinicaltrials.gov/ct2/show/NCT00000002'' status_label_page]"
    by (simp add: scrape_eval)
  from t t2 s show ?thesis by simp
qed


end
